theory Spec2Isabelle
  imports Complex_Main "HOL-Library.Log_Nat"
begin

section \<open>EchoPrint AI: the target detection engine\<close>

text \<open>
  A shallow embedding of \<^verbatim>\<open>src/lib/detection/target-detector.ts\<close> and of the profile
  registry that it imports from \<^verbatim>\<open>../targets/profiles\<close>.

  Conventions of the embedding.
  \<^item> Counts and scores are array lengths multiplied by small constants: they are integers
    far below \<open>2^53\<close>, where the arithmetic of JavaScript numbers is exact, and are
    modelled in \<^typ>\<open>int\<close>. The one computation that leaves the integers, the quotient
    in the confidence, is modelled in double precision (section \<open>JavaScript numbers\<close>).
  \<^item> The indicator strings of the registry are ASCII and are modelled as \<^typ>\<open>string\<close>;
    \<^verbatim>\<open>String.prototype.includes\<close> is the contiguous-substring test.
  \<^item> The user-facing message texts are template literals in Russian. A message is modelled
    by a constructor per template that carries the interpolated values, in the order in
    which the template uses them.
  \<^item> Fields of a profile that the engine never reads (description, apiEndpoints,
    detectionTriggers, knownVulnerabilities, regionSpecific, dataTransferDestination)
    are left out of the record.
\<close>

subsection \<open>Profiles\<close>

datatype RiskLevel = LOW | MEDIUM | HIGH | CRITICAL

datatype Category = Ecommerce | Social | Adtech | Analytics | Finance | Government

record TrackingInfra =
  primaryDomains :: "string list"
  thirdPartyTrackers :: "string list"
  jsLibraries :: "string list"

record FingerprintMethods =
  canvas :: bool
  webgl :: bool
  audio :: bool
  fonts :: bool
  sensors :: bool
  battery :: bool
  webrtc :: bool
  behavioral :: bool

record Countermeasures =
  blockDomains :: bool
  spoofFingerprint :: bool
  clearCookies :: bool
  useContainer :: bool

record TargetProfile =
  profile_id :: string
  profile_name :: string
  riskLevel :: RiskLevel
  category :: Category
  trackingInfra :: TrackingInfra
  fingerprintMethods :: FingerprintMethods
  storageKeys :: "string list"
  countermeasures :: Countermeasures

definition AliExpressProfile :: TargetProfile where
  "AliExpressProfile = \<lparr>
     profile_id = ''aliexpress'',
     profile_name = ''AliExpress (EU/Global)'',
     riskLevel = CRITICAL,
     category = Ecommerce,
     trackingInfra = \<lparr>
       primaryDomains = [''g.alicdn.com'', ''log.mmstat.com'', ''atanx.alicdn.com'',
         ''gtd.alicdn.com'', ''acjs.aliyun.com'', ''ynuf.alipay.com'', ''aeis.alicdn.com'',
         ''afcs.alicdn.com''],
       thirdPartyTrackers = [''criteo.com'', ''appsflyer.com'', ''google-analytics.com'',
         ''facebook.com'', ''rtbhouse.com'', ''moloco.com'', ''remerge.io'', ''tiktok.com'',
         ''taboola.com'', ''outbrain.com''],
       jsLibraries = [''aplus_v2.js'', ''aplus_cplugin.js'', ''aplus_plugin_aefront/index.js'',
         ''sufei_data/index.js'', ''AWSC/awsc.js'', ''ac.js'', ''retcode.js'']\<rparr>,
     fingerprintMethods = \<lparr>canvas = True, webgl = True, audio = True, fonts = True,
       sensors = False, battery = True, webrtc = False, behavioral = True\<rparr>,
     storageKeys = [''cna'', ''isg'', ''xman_f'', ''xman_t'', ''xman_us_f'', ''xman_us_t'',
       ''ali_apache_id'', ''ali_apache_track'', ''ali_beacon_id'',
       ''x5sec'', ''x5secdata'', ''baxia_sec_cookie'', ''sgcookie'',
       ''JSESSIONID'', ''XSRF-TOKEN'', ''acs_usuc_t'', ''_m_h5_tk'', ''_m_h5_tk_enc'',
       ''AB_STG'', ''AB_DATA_TRACK'', ''AB_ALG'', ''ali_ab'',
       ''intl_locale'', ''intl_common_forever'', ''aep_common_f'', ''aep_usuc_f''],
     countermeasures = \<lparr>blockDomains = True, spoofFingerprint = True,
       clearCookies = True, useContainer = True\<rparr>\<rparr>"

definition AmazonProfile :: TargetProfile where
  "AmazonProfile = \<lparr>
     profile_id = ''amazon'',
     profile_name = ''Amazon'',
     riskLevel = HIGH,
     category = Ecommerce,
     trackingInfra = \<lparr>
       primaryDomains = [''amazon.com'', ''amazon-adsystem.com'', ''amazonaws.com'',
         ''cloudfront.net'', ''assoc-amazon.com''],
       thirdPartyTrackers = [''doubleclick.net'', ''google-analytics.com'', ''facebook.com'',
         ''criteo.com'', ''advertising.com''],
       jsLibraries = [''amazon-cognito-identity.min.js'', ''amazon-login.js'', ''apex.js'',
         ''ammers.js'']\<rparr>,
     fingerprintMethods = \<lparr>canvas = True, webgl = True, audio = False, fonts = True,
       sensors = False, battery = False, webrtc = False, behavioral = True\<rparr>,
     storageKeys = [''session-id'', ''session-id-time'', ''ubid-main'', ''ubid-tsv'',
       ''x-main'', ''at-main'', ''sess-at-main'', ''csrfToken'',
       ''apay-session-id'', ''apay-device-id''],
     countermeasures = \<lparr>blockDomains = True, spoofFingerprint = False,
       clearCookies = True, useContainer = False\<rparr>\<rparr>"

definition FacebookProfile :: TargetProfile where
  "FacebookProfile = \<lparr>
     profile_id = ''facebook'',
     profile_name = ''Facebook / Meta'',
     riskLevel = CRITICAL,
     category = Social,
     trackingInfra = \<lparr>
       primaryDomains = [''facebook.com'', ''fbcdn.net'', ''facebook.net'', ''fb.com'',
         ''messenger.com'', ''instagram.com'', ''whatsapp.com''],
       thirdPartyTrackers = [''doubleclick.net'', ''google-analytics.com'',
         ''googleadservices.com'', ''bing.com''],
       jsLibraries = [''fbevents.js'', ''connect.facebook.net'', ''recaptcha__en.js'',
         ''detectproxy.js'']\<rparr>,
     fingerprintMethods = \<lparr>canvas = True, webgl = True, audio = True, fonts = True,
       sensors = False, battery = False, webrtc = True, behavioral = True\<rparr>,
     storageKeys = [''fr'', ''datr'', ''sb'', ''c_user'', ''xs'', ''wd'', ''dpr'',
       ''presence'', ''locale'', ''reg_ext_ref'', ''reg_fb_ref''],
     countermeasures = \<lparr>blockDomains = True, spoofFingerprint = True,
       clearCookies = True, useContainer = True\<rparr>\<rparr>"

definition GoogleProfile :: TargetProfile where
  "GoogleProfile = \<lparr>
     profile_id = ''google'',
     profile_name = ''Google'',
     riskLevel = CRITICAL,
     category = Analytics,
     trackingInfra = \<lparr>
       primaryDomains = [''google.com'', ''google-analytics.com'', ''googletagmanager.com'',
         ''googleadservices.com'', ''googlesyndication.com'', ''doubleclick.net'',
         ''gstatic.com'', ''youtube.com''],
       thirdPartyTrackers = [],
       jsLibraries = [''analytics.js'', ''gtag.js'', ''gtm.js'', ''recaptcha__en.js'',
         ''cbt.js'']\<rparr>,
     fingerprintMethods = \<lparr>canvas = True, webgl = True, audio = True, fonts = True,
       sensors = False, battery = False, webrtc = False, behavioral = True\<rparr>,
     storageKeys = [''_ga'', ''_gid'', ''_gat'', ''__utma'', ''__utmb'', ''__utmc'', ''__utmz'',
       ''SID'', ''HSID'', ''SSID'', ''APISID'', ''SAPISID'', ''NID'', ''1P_JAR''],
     countermeasures = \<lparr>blockDomains = True, spoofFingerprint = False,
       clearCookies = True, useContainer = False\<rparr>\<rparr>"

definition TikTokProfile :: TargetProfile where
  "TikTokProfile = \<lparr>
     profile_id = ''tiktok'',
     profile_name = ''TikTok'',
     riskLevel = CRITICAL,
     category = Social,
     trackingInfra = \<lparr>
       primaryDomains = [''tiktok.com'', ''tiktokv.com'', ''tiktokcdn.com'',
         ''byteoversea.com'', ''bytedance.com'', ''ibytedtos.com''],
       thirdPartyTrackers = [''facebook.com'', ''google-analytics.com'', ''adjust.com'',
         ''appsdt.com''],
       jsLibraries = [''analytics.js'', ''pixel.js'', ''ttq.js'']\<rparr>,
     fingerprintMethods = \<lparr>canvas = True, webgl = True, audio = True, fonts = True,
       sensors = True, battery = True, webrtc = False, behavioral = True\<rparr>,
     storageKeys = [''sid_tt'', ''sid_guard'', ''uid_tt'', ''odin_tt'',
       ''sessionid'', ''tt_webid'', ''tt_webid_v2''],
     countermeasures = \<lparr>blockDomains = True, spoofFingerprint = True,
       clearCookies = True, useContainer = True\<rparr>\<rparr>"

definition ALL_TARGET_PROFILES :: "TargetProfile list" where
  "ALL_TARGET_PROFILES =
     [AliExpressProfile, AmazonProfile, FacebookProfile, GoogleProfile, TikTokProfile]"

subsection \<open>Inputs of the engine\<close>

text \<open>
  \<^verbatim>\<open>FingerprintData\<close> is declared in \<^verbatim>\<open>../types\<close>; the engine reads five of its
  fields, \<^verbatim>\<open>canvas.supported\<close>, \<^verbatim>\<open>webgl.supported\<close>, \<^verbatim>\<open>audio.supported\<close>,
  \<^verbatim>\<open>battery.supported\<close> and \<^verbatim>\<open>storage.localStorage\<close>, all as conditions.
\<close>

record FingerprintData =
  canvas_supported :: bool
  webgl_supported :: bool
  audio_supported :: bool
  battery_supported :: bool
  storage_localStorage :: bool

record PageContext =
  domains :: "string list"
  scripts :: "string list"
  cookies :: "string list"
  localStorage :: "string list"

text \<open>The class \<^verbatim>\<open>TargetDetector\<close>: its two private fields; the page context is optional.\<close>

record TargetDetector =
  fingerprintData :: FingerprintData
  pageContext :: "PageContext option"

definition new_TargetDetector :: "FingerprintData \<Rightarrow> PageContext option \<Rightarrow> TargetDetector" where
  "new_TargetDetector fd pc = \<lparr>fingerprintData = fd, pageContext = pc\<rparr>"

subsection \<open>Signals and results\<close>

datatype SignalType = DomainT | ScriptT | CookieT | ApiT | FingerprintT | StorageT

datatype Severity = Low | Medium | High | Critical

text \<open>
  The description templates, in source order: connection to a primary domain found / not
  found, third-party tracker active / not found, tracking script found / not loaded, the
  six fingerprint methods (each carries the profile name), and the storage key note
  (key, profile name).
\<close>

datatype Description =
    ConnectionFound string
  | ConnectionNotFound string
  | TrackerActive string
  | TrackerNotFound string
  | ScriptFound string
  | ScriptNotLoaded string
  | UsesCanvas string
  | UsesWebGL string
  | UsesAudio string
  | EnumeratesFonts string
  | UsesBatteryAPI string
  | TracksBehaviour string
  | KeyMayBeUsed string string

record DetectionSignal =
  sig_type :: SignalType
  sig_name :: string
  found :: bool
  severity :: Severity
  description :: Description

text \<open>
  The recommendation templates, in source order: the four countermeasure advisories
  (container, with the profile name; domain block, with the domains listed; cookie
  clearing and fingerprint spoofing, with the profile name), the critical-tracker summary
  (with the signal names listed), and the eight fixed strings of the \<^verbatim>\<open>switch\<close>.
\<close>

datatype Recommendation =
    UseContainerFor string
  | BlockDomainsOf "string list"
  | ClearCookiesOf string
  | SpoofFingerprintAgainst string
  | CriticalTrackersFound "string list"
  | AliExpressUseVPN
  | DisableWebRTC
  | InstallFacebookContainer
  | UseUBlockFacebookFilters
  | GoogleDisableTracking
  | UseSearchAlternatives
  | TikTokRestrictPermissions
  | TikTokDenyClipboardSensors

record TargetDetectionResult =
  profile :: TargetProfile
  detected :: bool
  confidence :: int
  signals :: "DetectionSignal list"
  riskScore :: int
  recommendations :: "Recommendation list"

record FullDetectionResult =
  results :: "TargetDetectionResult list"
  overallRisk :: RiskLevel
  totalRiskScore :: int
  criticalTargets :: "TargetProfile list"
  allSignals :: "DetectionSignal list"

subsection \<open>JavaScript numbers\<close>

text \<open>
  \<^verbatim>\<open>Math.round((activeSignals / totalSignals) * 100)\<close> divides and multiplies in IEEE 754
  double precision. A finite double is a rational number; an operation returns the exact
  result rounded to the nearest number with a 53-bit significand, ties to the even
  significand. The operands here are array lengths and the constant 100, so the results
  lie in \<open>[0, 100]\<close> and are zero or at least \<open>2^-33\<close>: the exponent range of the format
  is never left, and the model rounds the significand only.
\<close>

definition roundTiesToEven :: "rat \<Rightarrow> int" where
  "roundTiesToEven y =
     (let f = \<lfloor>y\<rfloor>; r = y - of_int f
      in if r < 1 / 2 then f else if 1 / 2 < r then f + 1 else if even f then f else f + 1)"

text \<open>The binary exponent of a positive rational: \<open>2^e \<le> x < 2^(e+1)\<close>.\<close>

definition ilog2 :: "rat \<Rightarrow> int" where
  "ilog2 x = (if 1 \<le> x then bitlen \<lfloor>x\<rfloor> - 1 else - bitlen (\<lceil>1 / x\<rceil> - 1))"

definition to_double :: "rat \<Rightarrow> rat" where
  "to_double x =
     (if x = 0 then 0
      else let s = 2 powi (52 - ilog2 \<bar>x\<bar>) in of_int (roundTiesToEven (x * s)) / s)"

definition fdiv :: "rat \<Rightarrow> rat \<Rightarrow> rat" where
  "fdiv x y = to_double (x / y)"

definition fmul :: "rat \<Rightarrow> rat \<Rightarrow> rat" where
  "fmul x y = to_double (x * y)"

text \<open>\<^verbatim>\<open>Math.round\<close>: the nearest integer, a tie going up.\<close>

definition Math_round :: "rat \<Rightarrow> int" where
  "Math_round x = \<lfloor>x + 1 / 2\<rfloor>"

subsection \<open>The four evaluators\<close>

fun startsWith :: "string \<Rightarrow> string \<Rightarrow> bool" where
  "startsWith s [] = True"
| "startsWith [] (c # cs) = False"
| "startsWith (x # xs) (c # cs) = (x = c \<and> startsWith xs cs)"

fun includesStr :: "string \<Rightarrow> string \<Rightarrow> bool" where
  "includesStr [] sub = (sub = [])"
| "includesStr (x # xs) sub = (startsWith (x # xs) sub \<or> includesStr xs sub)"

text \<open>\<^verbatim>\<open>this.pageContext?.domains?.some(d => d.includes(x)) ?? false\<close>, and the same for scripts.\<close>

definition domainSeen :: "TargetDetector \<Rightarrow> string \<Rightarrow> bool" where
  "domainSeen this x =
     (case pageContext this of None \<Rightarrow> False
      | Some pc \<Rightarrow> list_ex (\<lambda>d. includesStr d x) (domains pc))"

definition scriptSeen :: "TargetDetector \<Rightarrow> string \<Rightarrow> bool" where
  "scriptSeen this x =
     (case pageContext this of None \<Rightarrow> False
      | Some pc \<Rightarrow> list_ex (\<lambda>s. includesStr s x) (scripts pc))"

definition primarySignal :: "TargetDetector \<Rightarrow> string \<Rightarrow> DetectionSignal" where
  "primarySignal this d =
     (let fnd = domainSeen this d
      in \<lparr>sig_type = DomainT, sig_name = d, found = fnd,
          severity = (if fnd then High else Low),
          description = (if fnd then ConnectionFound d else ConnectionNotFound d)\<rparr>)"

definition trackerSignal :: "TargetDetector \<Rightarrow> string \<Rightarrow> DetectionSignal" where
  "trackerSignal this t =
     (let fnd = domainSeen this t
      in \<lparr>sig_type = DomainT, sig_name = t, found = fnd,
          severity = (if fnd then Medium else Low),
          description = (if fnd then TrackerActive t else TrackerNotFound t)\<rparr>)"

definition checkDomains :: "TargetDetector \<Rightarrow> TargetProfile \<Rightarrow> DetectionSignal list" where
  "checkDomains this p =
     map (primarySignal this) (primaryDomains (trackingInfra p))
     @ map (trackerSignal this) (thirdPartyTrackers (trackingInfra p))"

definition scriptSignal :: "TargetDetector \<Rightarrow> string \<Rightarrow> DetectionSignal" where
  "scriptSignal this lib =
     (let fnd = scriptSeen this lib
      in \<lparr>sig_type = ScriptT, sig_name = lib, found = fnd,
          severity = (if fnd then Critical else Low),
          description = (if fnd then ScriptFound lib else ScriptNotLoaded lib)\<rparr>)"

definition checkScripts :: "TargetDetector \<Rightarrow> TargetProfile \<Rightarrow> DetectionSignal list" where
  "checkScripts this p = map (scriptSignal this) (jsLibraries (trackingInfra p))"

text \<open>\<^verbatim>\<open>if (c) signals.push(x)\<close>\<close>

definition push_if :: "bool \<Rightarrow> 'a \<Rightarrow> 'a list \<Rightarrow> 'a list" where
  "push_if c x xs = (if c then xs @ [x] else xs)"

definition fpSignal :: "string \<Rightarrow> Severity \<Rightarrow> Description \<Rightarrow> DetectionSignal" where
  "fpSignal n sev d =
     \<lparr>sig_type = FingerprintT, sig_name = n, found = True, severity = sev, description = d\<rparr>"

definition checkFingerprintMethods :: "TargetDetector \<Rightarrow> TargetProfile \<Rightarrow> DetectionSignal list" where
  "checkFingerprintMethods this p =
     (let methods = fingerprintMethods p;
          fd = fingerprintData this;
          s0 = [];
          s1 = push_if (canvas methods \<and> canvas_supported fd)
                 (fpSignal ''Canvas Fingerprinting'' High (UsesCanvas (profile_name p))) s0;
          s2 = push_if (webgl methods \<and> webgl_supported fd)
                 (fpSignal ''WebGL Fingerprinting'' High (UsesWebGL (profile_name p))) s1;
          s3 = push_if (audio methods \<and> audio_supported fd)
                 (fpSignal ''Audio Fingerprinting'' Medium (UsesAudio (profile_name p))) s2;
          s4 = push_if (fonts methods)
                 (fpSignal ''Font Enumeration'' Medium (EnumeratesFonts (profile_name p))) s3;
          s5 = push_if (battery methods \<and> battery_supported fd)
                 (fpSignal ''Battery API'' Medium (UsesBatteryAPI (profile_name p))) s4;
          s6 = push_if (behavioral methods)
                 (fpSignal ''Behavioral Tracking'' High (TracksBehaviour (profile_name p))) s5
      in s6)"

definition storageSignal :: "TargetProfile \<Rightarrow> string \<Rightarrow> DetectionSignal" where
  "storageSignal p k =
     \<lparr>sig_type = StorageT, sig_name = k, found = False, severity = Medium,
      description = KeyMayBeUsed k (profile_name p)\<rparr>"

definition checkStorageKeys :: "TargetDetector \<Rightarrow> TargetProfile \<Rightarrow> DetectionSignal list" where
  "checkStorageKeys this p =
     (if storage_localStorage (fingerprintData this)
      then map (storageSignal p) (take 10 (storageKeys p))
      else [])"

subsection \<open>Recommendations\<close>

text \<open>The \<^verbatim>\<open>switch (profile.id)\<close>: four cases, no default.\<close>

definition specificRecommendations :: "string \<Rightarrow> Recommendation list" where
  "specificRecommendations pid =
     (if pid = ''aliexpress'' then [AliExpressUseVPN, DisableWebRTC]
      else if pid = ''facebook'' then [InstallFacebookContainer, UseUBlockFacebookFilters]
      else if pid = ''google'' then [GoogleDisableTracking, UseSearchAlternatives]
      else if pid = ''tiktok'' then [TikTokRestrictPermissions, TikTokDenyClipboardSensors]
      else [])"

definition generateRecommendations ::
    "TargetProfile \<Rightarrow> DetectionSignal list \<Rightarrow> Recommendation list" where
  "generateRecommendations p sigs =
     (let cm = countermeasures p;
          r0 = [];
          r1 = push_if (useContainer cm) (UseContainerFor (profile_name p)) r0;
          r2 = push_if (blockDomains cm)
                 (BlockDomainsOf (take 3 (primaryDomains (trackingInfra p)))) r1;
          r3 = push_if (clearCookies cm) (ClearCookiesOf (profile_name p)) r2;
          r4 = push_if (spoofFingerprint cm) (SpoofFingerprintAgainst (profile_name p)) r3;
          criticalSignals = filter (\<lambda>s. severity s = Critical \<and> found s) sigs;
          r5 = push_if (0 < length criticalSignals)
                 (CriticalTrackersFound (map sig_name criticalSignals)) r4;
          r6 = r5 @ specificRecommendations (profile_id p)
      in take 5 r6)"

subsection \<open>The per-profile scorer\<close>

definition foundCount :: "DetectionSignal list \<Rightarrow> int" where
  "foundCount sigs = int (length (filter found sigs))"

definition confidenceOf :: "int \<Rightarrow> int \<Rightarrow> int" where
  "confidenceOf activeSignals len =
     (let totalSignals = (if len = 0 then 1 else len)
      in Math_round (fmul (fdiv (of_int activeSignals) (of_int totalSignals)) 100))"

definition detectProfile :: "TargetDetector \<Rightarrow> TargetProfile \<Rightarrow> TargetDetectionResult" where
  "detectProfile this p =
     (let domainSignals = checkDomains this p;
          sg1 = [] @ domainSignals;
          rs1 = 0 + foundCount domainSignals * 10;
          scriptSignals = checkScripts this p;
          sg2 = sg1 @ scriptSignals;
          rs2 = rs1 + foundCount scriptSignals * 15;
          fpSignals = checkFingerprintMethods this p;
          sg3 = sg2 @ fpSignals;
          rs3 = rs2 + foundCount fpSignals * 5;
          storageSignals = checkStorageKeys this p;
          sg4 = sg3 @ storageSignals;
          rs4 = rs3 + foundCount storageSignals * 8;
          recs = generateRecommendations p sg4;
          activeSignals = foundCount sg4;
          conf = confidenceOf activeSignals (int (length sg4))
      in \<lparr>profile = p,
          detected = (30 \<le> rs4),
          confidence = conf,
          signals = filter found sg4,
          riskScore = min 100 rs4,
          recommendations = recs\<rparr>)"

subsection \<open>The aggregator\<close>

text \<open>
  \<^verbatim>\<open>Array.prototype.sort\<close> with a comparator. ECMAScript requires the sort to be stable,
  and the result of a stable sort under a consistent comparator is unique, so the
  insertion sort below returns the array that any conforming engine returns.
\<close>

fun insert_by :: "('a \<Rightarrow> 'a \<Rightarrow> int) \<Rightarrow> 'a \<Rightarrow> 'a list \<Rightarrow> 'a list" where
  "insert_by cmp x [] = [x]"
| "insert_by cmp x (y # ys) =
     (if cmp x y \<le> 0 then x # y # ys else y # insert_by cmp x ys)"

definition array_sort :: "('a \<Rightarrow> 'a \<Rightarrow> int) \<Rightarrow> 'a list \<Rightarrow> 'a list" where
  "array_sort cmp xs = foldr (insert_by cmp) xs []"

definition byRiskDesc :: "TargetDetectionResult \<Rightarrow> TargetDetectionResult \<Rightarrow> int" where
  "byRiskDesc a b = riskScore b - riskScore a"

definition surfaced :: "TargetDetectionResult \<Rightarrow> bool" where
  "surfaced r = (detected r \<or> 20 < confidence r)"

definition calculateOverallRisk :: "int \<Rightarrow> TargetDetectionResult list \<Rightarrow> RiskLevel" where
  "calculateOverallRisk totalScore rs =
     (let criticalCount = length (filter (\<lambda>r. riskLevel (profile r) = CRITICAL) rs);
          highScore = length (filter (\<lambda>r. 50 \<le> riskScore r) rs)
      in if 2 \<le> criticalCount \<or> 80 \<le> totalScore then CRITICAL
         else if 1 \<le> criticalCount \<or> 2 \<le> highScore \<or> 50 \<le> totalScore then HIGH
         else if 30 \<le> totalScore then MEDIUM
         else LOW)"

definition detectAll :: "TargetDetector \<Rightarrow> FullDetectionResult" where
  "detectAll this =
     (let kept = filter surfaced (map (detectProfile this) ALL_TARGET_PROFILES);
          rs = array_sort byRiskDesc kept;
          total = foldl (\<lambda>sum r. sum + riskScore r) 0 rs
      in \<lparr>results = rs,
          overallRisk = calculateOverallRisk total rs,
          totalRiskScore = min 100 total,
          criticalTargets =
            map profile (filter (\<lambda>r. 50 \<le> riskScore r \<or> riskLevel (profile r) = CRITICAL) rs),
          allSignals = concat (map (\<lambda>r. filter found (signals r)) rs)\<rparr>)"

definition detectTargetTracking :: "FingerprintData \<Rightarrow> PageContext option \<Rightarrow> FullDetectionResult" where
  "detectTargetTracking fd pc = detectAll (new_TargetDetector fd pc)"

subsection \<open>The single-profile lookup\<close>

definition quickDetect :: "FingerprintData \<Rightarrow> string \<Rightarrow> TargetDetectionResult option" where
  "quickDetect fd profileId =
     (case find (\<lambda>p. profile_id p = profileId) ALL_TARGET_PROFILES of
        None \<Rightarrow> None
      | Some p \<Rightarrow> Some (detectProfile (new_TargetDetector fd None) p))"

subsection \<open>Vocabulary of the properties\<close>

text \<open>
  The signal list that \<^verbatim>\<open>detectProfile\<close> accumulates before it filters (the four
  evaluators in call order), and the number of found signals of one type in a list.
\<close>

definition emittedSignals :: "TargetDetector \<Rightarrow> TargetProfile \<Rightarrow> DetectionSignal list" where
  "emittedSignals this p =
     checkDomains this p @ checkScripts this p @ checkFingerprintMethods this p
     @ checkStorageKeys this p"

definition foundOfType :: "SignalType \<Rightarrow> DetectionSignal list \<Rightarrow> int" where
  "foundOfType ty sigs = int (length (filter (\<lambda>s. found s \<and> sig_type s = ty) sigs))"

text \<open>The weighted sum of the found counts, before the clamp.\<close>

definition rawRiskScore :: "TargetDetector \<Rightarrow> TargetProfile \<Rightarrow> int" where
  "rawRiskScore this p =
     10 * foundOfType DomainT (emittedSignals this p)
     + 15 * foundOfType ScriptT (emittedSignals this p)
     + 5 * foundOfType FingerprintT (emittedSignals this p)
     + 8 * foundOfType StorageT (emittedSignals this p)"

subsection \<open>Example inputs\<close>

text \<open>
  The scenario of the specification: canvas and WebGL supported, audio and battery not,
  no local storage; a page that contacted one primary domain and one third-party tracker
  of AliExpress and loaded no script. And a bundle with local storage, without a page
  context.
\<close>

definition exampleBundle :: FingerprintData where
  "exampleBundle = \<lparr>canvas_supported = True, webgl_supported = True, audio_supported = False,
     battery_supported = False, storage_localStorage = False\<rparr>"

definition exampleContext :: PageContext where
  "exampleContext = \<lparr>domains = [''g.alicdn.com'', ''criteo.com''], scripts = [],
     cookies = [], localStorage = []\<rparr>"

definition exampleDetector :: TargetDetector where
  "exampleDetector = new_TargetDetector exampleBundle (Some exampleContext)"

definition storageBundle :: FingerprintData where
  "storageBundle = \<lparr>canvas_supported = True, webgl_supported = True, audio_supported = True,
     battery_supported = False, storage_localStorage = True\<rparr>"

definition storageDetector :: TargetDetector where
  "storageDetector = new_TargetDetector storageBundle None"

text \<open>
  Further inputs: a bundle that supports nothing, with a page that contacted YouTube; the
  scenario's bundle without a page context; the storage bundle with a page that contacted
  every primary domain and every third-party tracker of AliExpress; and a bundle that
  supports every method, without local storage and without a page context.
\<close>

definition noSupportBundle :: FingerprintData where
  "noSupportBundle = \<lparr>canvas_supported = False, webgl_supported = False,
     audio_supported = False, battery_supported = False, storage_localStorage = False\<rparr>"

definition youtubeDetector :: TargetDetector where
  "youtubeDetector = new_TargetDetector noSupportBundle
     (Some \<lparr>domains = [''www.youtube.com''], scripts = [], cookies = [], localStorage = []\<rparr>)"

definition offlineDetector :: TargetDetector where
  "offlineDetector = new_TargetDetector exampleBundle None"

definition tieContext :: PageContext where
  "tieContext = \<lparr>domains = [''g.alicdn.com'', ''log.mmstat.com'', ''atanx.alicdn.com'',
       ''gtd.alicdn.com'', ''acjs.aliyun.com'', ''ynuf.alipay.com'', ''aeis.alicdn.com'',
       ''afcs.alicdn.com'', ''criteo.com'', ''appsflyer.com'', ''google-analytics.com'',
       ''facebook.com'', ''rtbhouse.com'', ''moloco.com'', ''remerge.io'', ''tiktok.com'',
       ''taboola.com'', ''outbrain.com''],
     scripts = [], cookies = [], localStorage = []\<rparr>"

definition tieDetector :: TargetDetector where
  "tieDetector = new_TargetDetector storageBundle (Some tieContext)"

definition fullBundle :: FingerprintData where
  "fullBundle = \<lparr>canvas_supported = True, webgl_supported = True, audio_supported = True,
     battery_supported = True, storage_localStorage = False\<rparr>"

definition fullDetector :: TargetDetector where
  "fullDetector = new_TargetDetector fullBundle None"

section \<open>Properties\<close>

subsection \<open>Double precision: the exponent and the rounding\<close>

lemma bitlen_pos: "0 < n \<Longrightarrow> 1 \<le> bitlen n"
  by (simp add: bitlen_alt_def)

lemma ilog2_ge1:
  assumes "1 \<le> x"
  shows "2 powi (ilog2 x) \<le> x \<and> x < 2 powi (ilog2 x + 1)"
proof -
  define n where "n = \<lfloor>x\<rfloor>"
  have n1: "1 \<le> n" using assms by (simp add: n_def)
  then have b1: "1 \<le> bitlen n" by (simp add: bitlen_pos)
  have bb: "2 ^ nat (bitlen n - 1) \<le> n" "n < 2 ^ nat (bitlen n)"
    using bitlen_bounds [of n] n1 by auto
  have e: "ilog2 x = bitlen n - 1" using assms by (simp add: ilog2_def n_def)
  have "(2::rat) powi (bitlen n - 1) = of_int (2 ^ nat (bitlen n - 1))"
    using b1 by (simp add: power_int_nonneg_exp)
  also have "\<dots> \<le> of_int n" using bb(1) by (simp only: of_int_le_iff)
  also have "\<dots> \<le> x" by (simp add: n_def)
  finally have lo: "2 powi (ilog2 x) \<le> x" by (simp add: e)
  have "x < of_int (n + 1)" using floor_correct [of x] by (simp add: n_def)
  also have "\<dots> \<le> of_int (2 ^ nat (bitlen n))" using bb(2) by (simp only: of_int_le_iff; simp)
  also have "\<dots> = (2::rat) powi (bitlen n)" using b1 by (simp add: power_int_nonneg_exp)
  finally have "x < 2 powi (ilog2 x + 1)" by (simp add: e)
  with lo show ?thesis by simp
qed

lemma ilog2_lt1:
  assumes "0 < x" "x < 1"
  shows "2 powi (ilog2 x) \<le> x \<and> x < 2 powi (ilog2 x + 1)"
proof -
  define m where "m = \<lceil>1 / x\<rceil> - 1"
  have y1: "1 < 1 / x" using assms by simp
  then have "1 < \<lceil>1 / x\<rceil>" by (simp add: less_ceiling_iff)
  then have m1: "1 \<le> m" by (simp add: m_def)
  then have b1: "1 \<le> bitlen m" by (simp add: bitlen_pos)
  have bb: "2 ^ nat (bitlen m - 1) \<le> m" "m < 2 ^ nat (bitlen m)"
    using bitlen_bounds [of m] m1 by auto
  have e: "ilog2 x = - bitlen m" using assms by (simp add: ilog2_def m_def)
  have my: "of_int m < 1 / x" "1 / x \<le> of_int (m + 1)"
    using ceiling_correct [of "1 / x"] by (simp_all add: m_def)
  have "1 / x \<le> of_int (m + 1)" by (rule my(2))
  also have "\<dots> \<le> of_int (2 ^ nat (bitlen m))" using bb(2) by (simp only: of_int_le_iff; simp)
  also have "\<dots> = (2::rat) powi (bitlen m)" using b1 by (simp add: power_int_nonneg_exp)
  finally have "1 / x \<le> 2 powi (bitlen m)" .
  then have "1 / (2 powi (bitlen m)) \<le> x"
    using assms(1) by (simp add: field_simps)
  then have lo: "2 powi (ilog2 x) \<le> x" by (simp add: e power_int_minus_divide)
  have "(2::rat) powi (bitlen m - 1) = of_int (2 ^ nat (bitlen m - 1))"
    using b1 by (simp add: power_int_nonneg_exp)
  also have "\<dots> \<le> of_int m" using bb(1) by (simp only: of_int_le_iff)
  also have "\<dots> < 1 / x" by (rule my(1))
  finally have "2 powi (bitlen m - 1) < 1 / x" .
  then have "x < 1 / (2 powi (bitlen m - 1))"
    using assms(1) by (simp add: field_simps)
  also have "\<dots> = 2 powi (- (bitlen m - 1))" by (simp only: power_int_minus_divide)
  finally have "x < 2 powi (ilog2 x + 1)" by (simp add: e)
  with lo show ?thesis by simp
qed

lemma ilog2_bounds:
  assumes "0 < x"
  shows "2 powi (ilog2 x) \<le> x" and "x < 2 powi (ilog2 x + 1)"
  using ilog2_ge1 [of x] ilog2_lt1 [of x] assms by (cases "1 \<le> x"; simp)+

lemma roundTiesToEven_le:
  assumes "y \<le> of_int n"
  shows "roundTiesToEven y \<le> n"
proof -
  have f: "\<lfloor>y\<rfloor> \<le> n" using floor_mono [OF assms] by simp
  show ?thesis
  proof (cases "\<lfloor>y\<rfloor> = n")
    case True
    then have "y = of_int n" using assms floor_correct [of y] by linarith
    then show ?thesis by (simp add: roundTiesToEven_def)
  next
    case False
    with f have "\<lfloor>y\<rfloor> + 1 \<le> n" by simp
    then show ?thesis using f by (simp add: roundTiesToEven_def Let_def)
  qed
qed

lemma roundTiesToEven_ge:
  assumes "of_int n \<le> y"
  shows "n \<le> roundTiesToEven y"
proof -
  have "n \<le> \<lfloor>y\<rfloor>" using assms by (simp add: le_floor_iff)
  then show ?thesis by (simp add: roundTiesToEven_def Let_def)
qed

lemma pow2_exp_less:
  assumes "(2::rat) powi k \<le> x" "x < 2 powi m"
  shows "k < m"
proof (rule ccontr)
  assume "\<not> k < m"
  then have "(2::rat) powi m \<le> 2 powi k" by (intro power_int_increasing) simp_all
  with assms show False by simp
qed

lemma to_double_ge_pow:
  assumes "0 < x" "2 powi k \<le> x"
  shows "2 powi k \<le> to_double x"
proof -
  define e where "e = ilog2 x"
  define s :: rat where "s = 2 powi (52 - e)"
  have s0: "0 < s" by (simp add: s_def)
  have ke: "k \<le> e"
    using pow2_exp_less [OF assms(2) ilog2_bounds(2) [OF assms(1)]] by (simp add: e_def)
  have "(2::rat) powi e * s = 2 powi (e + (52 - e))"
    unfolding s_def by (rule power_int_add [symmetric]) simp
  then have es: "(2::rat) powi e * s = of_int (2 ^ 52)" by simp
  have "2 powi e * s \<le> x * s"
    using ilog2_bounds(1) [OF assms(1)] s0 by (simp add: e_def)
  then have "of_int (2 ^ 52) \<le> x * s" by (simp only: es)
  then have "2 ^ 52 \<le> roundTiesToEven (x * s)" by (rule roundTiesToEven_ge)
  then have "(of_int (2 ^ 52) :: rat) \<le> of_int (roundTiesToEven (x * s))"
    by (simp only: of_int_le_iff)
  then have "2 powi e * s / s \<le> of_int (roundTiesToEven (x * s)) / s"
    using s0 by (simp only: es divide_le_cancel) simp
  then have "2 powi e \<le> to_double x"
    using assms(1) s0 by (simp add: to_double_def Let_def s_def e_def)
  moreover have "(2::rat) powi k \<le> 2 powi e" using ke by (intro power_int_increasing) simp_all
  ultimately show ?thesis by simp
qed

lemma to_double_le_int:
  assumes "0 < x" "x \<le> of_int n" "n < 2 ^ 53"
  shows "to_double x \<le> of_int n"
proof -
  define e where "e = ilog2 x"
  define s :: rat where "s = 2 powi (52 - e)"
  have s0: "0 < s" by (simp add: s_def)
  have "x < of_int (2 ^ 53)" using assms(2,3) by (smt (verit) of_int_less_iff le_less_trans)
  then have "x < 2 powi 53" by simp
  from pow2_exp_less [OF ilog2_bounds(1) [OF assms(1)] this] have e52: "e \<le> 52"
    by (simp add: e_def)
  then have si: "s = of_int (2 ^ nat (52 - e))" by (simp add: s_def power_int_nonneg_exp)
  have "x * s \<le> of_int n * s" using assms(2) s0 by simp
  then have "x * s \<le> of_int (n * 2 ^ nat (52 - e))" by (simp add: si)
  then have "roundTiesToEven (x * s) \<le> n * 2 ^ nat (52 - e)" by (rule roundTiesToEven_le)
  then have "(of_int (roundTiesToEven (x * s)) :: rat) \<le> of_int (n * 2 ^ nat (52 - e))"
    by (simp only: of_int_le_iff)
  then have "of_int (roundTiesToEven (x * s)) \<le> of_int n * s" by (simp add: si)
  then have "of_int (roundTiesToEven (x * s)) / s \<le> of_int n"
    using s0 by (simp add: field_simps)
  then show ?thesis using assms(1) by (simp add: to_double_def Let_def s_def e_def)
qed

lemma to_double_pos:
  assumes "0 < x"
  shows "0 < to_double x"
proof -
  have "(0::rat) < 2 powi (ilog2 x)" by simp
  also have "\<dots> \<le> to_double x" using assms ilog2_bounds(1) [OF assms] by (rule to_double_ge_pow)
  finally show ?thesis .
qed

lemma confidenceOf_zero: "confidenceOf 0 len = 0"
  by (simp add: confidenceOf_def fdiv_def fmul_def to_double_def Math_round_def floor_eq_iff)

lemma confidenceOf_bounds:
  assumes "0 \<le> a" "a \<le> len"
  shows "0 \<le> confidenceOf a len \<and> confidenceOf a len \<le> 100"
proof (cases "a = 0")
  case True
  then show ?thesis by (simp add: confidenceOf_zero)
next
  case False
  with assms have a1: "1 \<le> a" and l1: "1 \<le> len" by simp_all
  define x :: rat where "x = of_int a / of_int len"
  have x0: "0 < x" using a1 l1 by (simp add: x_def)
  have x1: "x \<le> of_int 1" using assms l1 by (simp add: x_def)
  define d where "d = to_double x"
  have d0: "0 < d" unfolding d_def using x0 by (rule to_double_pos)
  have d1: "d \<le> 1" using to_double_le_int [OF x0 x1] by (simp add: d_def)
  have y0: "0 < d * 100" using d0 by simp
  have y1: "d * 100 \<le> of_int 100" using d1 by simp
  define z where "z = to_double (d * 100)"
  have z0: "0 < z" unfolding z_def using y0 by (rule to_double_pos)
  have z1: "z \<le> 100" using to_double_le_int [OF y0 y1] by (simp add: z_def)
  have c: "confidenceOf a len = \<lfloor>z + 1 / 2\<rfloor>"
    using l1 by (simp add: confidenceOf_def Math_round_def fmul_def fdiv_def z_def d_def x_def)
  have "0 \<le> \<lfloor>z + 1 / 2\<rfloor>" using z0 by (simp add: le_floor_iff)
  moreover have "\<lfloor>z + 1 / 2\<rfloor> \<le> 100" using z1 by (simp add: floor_le_iff)
  ultimately show ?thesis by (simp add: c)
qed

lemma confidenceOf_pos:
  assumes "1 \<le> a" "a \<le> len" "len \<le> 64 * a"
  shows "1 \<le> confidenceOf a len"
proof -
  have l1: "1 \<le> len" using assms by simp
  define x :: rat where "x = of_int a / of_int len"
  have x0: "0 < x" using assms l1 by (simp add: x_def)
  have "(of_int len :: rat) \<le> of_int (64 * a)" using assms(3) by (simp only: of_int_le_iff)
  then have "1 / 64 \<le> x" using l1 by (simp add: x_def field_simps)
  then have xk: "2 powi (- 6) \<le> x" by simp
  define d where "d = to_double x"
  have dk: "2 powi (- 6) \<le> d" unfolding d_def using x0 xk by (rule to_double_ge_pow)
  then have yk: "2 powi 0 \<le> d * 100" by simp
  then have y0: "0 < d * 100" by simp
  define z where "z = to_double (d * 100)"
  have "2 powi 0 \<le> z" unfolding z_def using y0 yk by (rule to_double_ge_pow)
  then have z1: "1 \<le> z" by simp
  have c: "confidenceOf a len = \<lfloor>z + 1 / 2\<rfloor>"
    using l1 by (simp add: confidenceOf_def Math_round_def fmul_def fdiv_def z_def d_def x_def)
  have "1 \<le> \<lfloor>z + 1 / 2\<rfloor>" using z1 by (simp add: le_floor_iff)
  then show ?thesis by (simp add: c)
qed

subsection \<open>The evaluators\<close>

lemma checkDomains_type: "s \<in> set (checkDomains this p) \<Longrightarrow> sig_type s = DomainT"
  by (auto simp: checkDomains_def primarySignal_def trackerSignal_def Let_def)

lemma checkScripts_type: "s \<in> set (checkScripts this p) \<Longrightarrow> sig_type s = ScriptT"
  by (auto simp: checkScripts_def scriptSignal_def Let_def)

lemma in_push_if: "s \<in> set (push_if c x xs) \<longleftrightarrow> s \<in> set xs \<or> c \<and> s = x"
  by (auto simp: push_if_def)

lemma in_checkFingerprintMethods:
  "s \<in> set (checkFingerprintMethods this p) \<longleftrightarrow>
     canvas (fingerprintMethods p) \<and> canvas_supported (fingerprintData this)
       \<and> s = fpSignal ''Canvas Fingerprinting'' High (UsesCanvas (profile_name p))
   \<or> webgl (fingerprintMethods p) \<and> webgl_supported (fingerprintData this)
       \<and> s = fpSignal ''WebGL Fingerprinting'' High (UsesWebGL (profile_name p))
   \<or> audio (fingerprintMethods p) \<and> audio_supported (fingerprintData this)
       \<and> s = fpSignal ''Audio Fingerprinting'' Medium (UsesAudio (profile_name p))
   \<or> fonts (fingerprintMethods p)
       \<and> s = fpSignal ''Font Enumeration'' Medium (EnumeratesFonts (profile_name p))
   \<or> battery (fingerprintMethods p) \<and> battery_supported (fingerprintData this)
       \<and> s = fpSignal ''Battery API'' Medium (UsesBatteryAPI (profile_name p))
   \<or> behavioral (fingerprintMethods p)
       \<and> s = fpSignal ''Behavioral Tracking'' High (TracksBehaviour (profile_name p))"
  unfolding checkFingerprintMethods_def Let_def in_push_if by simp

lemma found_fpSignal: "found (fpSignal n sev d)" "sig_type (fpSignal n sev d) = FingerprintT"
  by (simp_all add: fpSignal_def)

lemma checkFingerprintMethods_found:
  "s \<in> set (checkFingerprintMethods this p) \<Longrightarrow> found s \<and> sig_type s = FingerprintT"
  unfolding in_checkFingerprintMethods using found_fpSignal by blast

lemma checkStorageKeys_props:
  "s \<in> set (checkStorageKeys this p) \<Longrightarrow> \<not> found s \<and> severity s = Medium \<and> sig_type s = StorageT"
  by (auto simp: checkStorageKeys_def storageSignal_def split: if_splits)

lemma foundOfType_append: "foundOfType ty (xs @ ys) = foundOfType ty xs + foundOfType ty ys"
  by (simp add: foundOfType_def)

lemma foundOfType_same:
  "(\<And>s. s \<in> set xs \<Longrightarrow> sig_type s = ty) \<Longrightarrow> foundOfType ty xs = foundCount xs"
  unfolding foundOfType_def foundCount_def
  by (simp cong: filter_cong)

lemma foundOfType_other:
  "(\<And>s. s \<in> set xs \<Longrightarrow> sig_type s \<noteq> ty) \<Longrightarrow> foundOfType ty xs = 0"
  unfolding foundOfType_def by (auto simp: filter_empty_conv)

lemma foundCount_nonneg: "0 \<le> foundCount xs"
  by (simp add: foundCount_def)

lemma foundCount_storage: "foundCount (checkStorageKeys this p) = 0"
  unfolding foundCount_def using checkStorageKeys_props by (auto simp: filter_empty_conv)

lemma riskScore_detectProfile:
  "riskScore (detectProfile this p) =
     min 100 (foundCount (checkDomains this p) * 10 + foundCount (checkScripts this p) * 15
              + foundCount (checkFingerprintMethods this p) * 5
              + foundCount (checkStorageKeys this p) * 8)"
  by (simp add: detectProfile_def Let_def)

lemma foundOfType_emitted:
  "foundOfType DomainT (emittedSignals this p) = foundCount (checkDomains this p)"
  "foundOfType ScriptT (emittedSignals this p) = foundCount (checkScripts this p)"
  "foundOfType FingerprintT (emittedSignals this p) = foundCount (checkFingerprintMethods this p)"
  "foundOfType StorageT (emittedSignals this p) = foundCount (checkStorageKeys this p)"
  unfolding emittedSignals_def foundOfType_append
  using checkDomains_type [of _ this p] checkScripts_type [of _ this p]
    checkFingerprintMethods_found [of _ this p] checkStorageKeys_props [of _ this p]
  by (simp_all add: foundOfType_same foundOfType_other)

subsection \<open>The risk score\<close>

text \<open>
  Claim C1. For every detector (signal bundle and optional page context) and every
  profile, the risk score that \<^verbatim>\<open>detectProfile\<close> returns is ten times the number of
  found domain signals, plus fifteen times the number of found script signals, plus five
  times the number of found fingerprint signals, plus eight times the number of found
  storage signals, counted over the emitted signal list and clamped to the range from 0
  to 100.
\<close>

theorem detectProfile_riskScore_formula:
  "riskScore (detectProfile this p) =
     max 0 (min 100 (10 * foundOfType DomainT (emittedSignals this p)
                     + 15 * foundOfType ScriptT (emittedSignals this p)
                     + 5 * foundOfType FingerprintT (emittedSignals this p)
                     + 8 * foundOfType StorageT (emittedSignals this p)))"
  unfolding foundOfType_emitted riskScore_detectProfile
  using foundCount_nonneg [of "checkDomains this p"] foundCount_nonneg [of "checkScripts this p"]
    foundCount_nonneg [of "checkFingerprintMethods this p"]
    foundCount_nonneg [of "checkStorageKeys this p"]
  by simp

theorem detectProfile_riskScore_formula_witness:
  "foundOfType DomainT (emittedSignals exampleDetector AliExpressProfile) = 2
   \<and> foundOfType ScriptT (emittedSignals exampleDetector AliExpressProfile) = 0
   \<and> foundOfType FingerprintT (emittedSignals exampleDetector AliExpressProfile) = 4
   \<and> foundOfType StorageT (emittedSignals exampleDetector AliExpressProfile) = 0
   \<and> riskScore (detectProfile exampleDetector AliExpressProfile) = 40
   \<and> riskScore (detectProfile tieDetector AliExpressProfile) = 100"
proof -
  have c: "foundOfType DomainT (emittedSignals exampleDetector AliExpressProfile) = 2"
    "foundOfType ScriptT (emittedSignals exampleDetector AliExpressProfile) = 0"
    "foundOfType FingerprintT (emittedSignals exampleDetector AliExpressProfile) = 4"
    "foundOfType StorageT (emittedSignals exampleDetector AliExpressProfile) = 0"
    by code_simp+
  have d: "foundOfType DomainT (emittedSignals tieDetector AliExpressProfile) = 18"
    "foundOfType ScriptT (emittedSignals tieDetector AliExpressProfile) = 0"
    "foundOfType FingerprintT (emittedSignals tieDetector AliExpressProfile) = 5"
    "foundOfType StorageT (emittedSignals tieDetector AliExpressProfile) = 0"
    by code_simp+
  have 1: "riskScore (detectProfile exampleDetector AliExpressProfile) = 40"
    using detectProfile_riskScore_formula [of exampleDetector AliExpressProfile]
    by (simp add: c)
  have 2: "riskScore (detectProfile tieDetector AliExpressProfile) = 100"
    using detectProfile_riskScore_formula [of tieDetector AliExpressProfile]
    by (simp add: d)
  from c 1 2 show ?thesis by simp
qed

subsection \<open>The fingerprint-method evaluator\<close>

lemma sig_fpSignal [simp]:
  "sig_name (fpSignal n sev d) = n" "severity (fpSignal n sev d) = sev"
  by (simp_all add: fpSignal_def)

lemma map_push_if: "map f (push_if c x xs) = push_if c (f x) (map f xs)"
  by (simp add: push_if_def)

lemma names_checkFingerprintMethods:
  "n \<in> set (map sig_name (checkFingerprintMethods this p)) \<longleftrightarrow>
     canvas (fingerprintMethods p) \<and> canvas_supported (fingerprintData this)
       \<and> n = ''Canvas Fingerprinting''
   \<or> webgl (fingerprintMethods p) \<and> webgl_supported (fingerprintData this)
       \<and> n = ''WebGL Fingerprinting''
   \<or> audio (fingerprintMethods p) \<and> audio_supported (fingerprintData this)
       \<and> n = ''Audio Fingerprinting''
   \<or> fonts (fingerprintMethods p) \<and> n = ''Font Enumeration''
   \<or> battery (fingerprintMethods p) \<and> battery_supported (fingerprintData this)
       \<and> n = ''Battery API''
   \<or> behavioral (fingerprintMethods p) \<and> n = ''Behavioral Tracking''"
  unfolding checkFingerprintMethods_def Let_def map_push_if in_push_if by simp

lemma name_in_checkFingerprintMethods:
  "(\<exists>s \<in> set (checkFingerprintMethods this p). sig_name s = n) \<longleftrightarrow>
     canvas (fingerprintMethods p) \<and> canvas_supported (fingerprintData this)
       \<and> n = ''Canvas Fingerprinting''
   \<or> webgl (fingerprintMethods p) \<and> webgl_supported (fingerprintData this)
       \<and> n = ''WebGL Fingerprinting''
   \<or> audio (fingerprintMethods p) \<and> audio_supported (fingerprintData this)
       \<and> n = ''Audio Fingerprinting''
   \<or> fonts (fingerprintMethods p) \<and> n = ''Font Enumeration''
   \<or> battery (fingerprintMethods p) \<and> battery_supported (fingerprintData this)
       \<and> n = ''Battery API''
   \<or> behavioral (fingerprintMethods p) \<and> n = ''Behavioral Tracking''"
proof -
  have "(\<exists>s \<in> set (checkFingerprintMethods this p). sig_name s = n)
      \<longleftrightarrow> n \<in> set (map sig_name (checkFingerprintMethods this p))"
    by (simp only: set_map image_iff) blast
  then show ?thesis by (simp only: names_checkFingerprintMethods)
qed

lemma severity_in_checkFingerprintMethods:
  assumes "s \<in> set (checkFingerprintMethods this p)"
  shows "severity s =
    (if sig_name s \<in> {''Canvas Fingerprinting'', ''WebGL Fingerprinting'', ''Behavioral Tracking''}
     then High else Medium)"
  using assms unfolding in_checkFingerprintMethods by (auto simp: fpSignal_def)

text \<open>
  Claim C4. For every profile and bundle, every signal of the fingerprint-method evaluator
  has \<open>found = true\<close>; the canvas, WebGL, audio and battery signals are emitted exactly
  when the profile declares the method and the bundle reports it supported, the font and
  behavioural signals exactly when the profile declares them, and no other signal is
  emitted (the \<open>sensors\<close> and \<open>webrtc\<close> flags emit nothing). The severity is high for
  canvas, WebGL and behavioural, medium for audio, fonts and battery.
\<close>

theorem checkFingerprintMethods_gating:
  "(\<forall>s \<in> set (checkFingerprintMethods this p). found s \<and> sig_type s = FingerprintT
       \<and> severity s =
          (if sig_name s \<in> {''Canvas Fingerprinting'', ''WebGL Fingerprinting'',
                            ''Behavioral Tracking''}
           then High else Medium))
   \<and> ((\<exists>s \<in> set (checkFingerprintMethods this p). sig_name s = ''Canvas Fingerprinting'')
        \<longleftrightarrow> canvas (fingerprintMethods p) \<and> canvas_supported (fingerprintData this))
   \<and> ((\<exists>s \<in> set (checkFingerprintMethods this p). sig_name s = ''WebGL Fingerprinting'')
        \<longleftrightarrow> webgl (fingerprintMethods p) \<and> webgl_supported (fingerprintData this))
   \<and> ((\<exists>s \<in> set (checkFingerprintMethods this p). sig_name s = ''Audio Fingerprinting'')
        \<longleftrightarrow> audio (fingerprintMethods p) \<and> audio_supported (fingerprintData this))
   \<and> ((\<exists>s \<in> set (checkFingerprintMethods this p). sig_name s = ''Battery API'')
        \<longleftrightarrow> battery (fingerprintMethods p) \<and> battery_supported (fingerprintData this))
   \<and> ((\<exists>s \<in> set (checkFingerprintMethods this p). sig_name s = ''Font Enumeration'')
        \<longleftrightarrow> fonts (fingerprintMethods p))
   \<and> ((\<exists>s \<in> set (checkFingerprintMethods this p). sig_name s = ''Behavioral Tracking'')
        \<longleftrightarrow> behavioral (fingerprintMethods p))
   \<and> (\<forall>s \<in> set (checkFingerprintMethods this p).
        sig_name s \<in> {''Canvas Fingerprinting'', ''WebGL Fingerprinting'',
          ''Audio Fingerprinting'', ''Font Enumeration'', ''Battery API'',
          ''Behavioral Tracking''})"
proof -
  have a: "\<forall>s \<in> set (checkFingerprintMethods this p). found s \<and> sig_type s = FingerprintT
       \<and> severity s =
          (if sig_name s \<in> {''Canvas Fingerprinting'', ''WebGL Fingerprinting'',
                            ''Behavioral Tracking''}
           then High else Medium)"
    using checkFingerprintMethods_found severity_in_checkFingerprintMethods by blast
  have b: "\<forall>s \<in> set (checkFingerprintMethods this p).
        sig_name s \<in> {''Canvas Fingerprinting'', ''WebGL Fingerprinting'',
          ''Audio Fingerprinting'', ''Font Enumeration'', ''Battery API'',
          ''Behavioral Tracking''}"
    using name_in_checkFingerprintMethods [of this p] by blast
  show ?thesis
    apply (intro conjI)
           apply (rule a)
          apply (simp add: name_in_checkFingerprintMethods)
         apply (simp add: name_in_checkFingerprintMethods)
        apply (simp add: name_in_checkFingerprintMethods)
       apply (simp add: name_in_checkFingerprintMethods)
      apply (simp add: name_in_checkFingerprintMethods)
     apply (simp add: name_in_checkFingerprintMethods)
    apply (rule b)
    done
qed

theorem checkFingerprintMethods_gating_witness:
  "list_all (\<lambda>s. found s \<and> sig_type s = FingerprintT)
     (checkFingerprintMethods exampleDetector AliExpressProfile)
   \<and> (\<exists>s \<in> set (checkFingerprintMethods exampleDetector AliExpressProfile).
         sig_name s = ''Canvas Fingerprinting'')
   \<and> \<not> (\<exists>s \<in> set (checkFingerprintMethods exampleDetector AliExpressProfile).
         sig_name s = ''Audio Fingerprinting'')
   \<and> (\<exists>s \<in> set (checkFingerprintMethods exampleDetector AliExpressProfile).
         sig_name s = ''Font Enumeration'')"
proof -
  have f: "canvas (fingerprintMethods AliExpressProfile)"
    "canvas_supported (fingerprintData exampleDetector)"
    "\<not> audio_supported (fingerprintData exampleDetector)"
    "fonts (fingerprintMethods AliExpressProfile)"
    by (simp_all add: AliExpressProfile_def exampleDetector_def exampleBundle_def
        new_TargetDetector_def)
  have "\<forall>s \<in> set (checkFingerprintMethods exampleDetector AliExpressProfile).
      found s \<and> sig_type s = FingerprintT"
    using checkFingerprintMethods_gating [of exampleDetector AliExpressProfile] by blast
  then have "list_all (\<lambda>s. found s \<and> sig_type s = FingerprintT)
     (checkFingerprintMethods exampleDetector AliExpressProfile)"
    by (simp only: list_all_iff)
  with f checkFingerprintMethods_gating [of exampleDetector AliExpressProfile]
  show ?thesis by blast
qed

subsection \<open>The storage-key evaluator\<close>

lemma length_checkStorageKeys: "length (checkStorageKeys this p) \<le> 10"
  by (simp add: checkStorageKeys_def)

lemma names_checkStorageKeys:
  "map sig_name (checkStorageKeys this p) =
     (if storage_localStorage (fingerprintData this) then take 10 (storageKeys p) else [])"
  by (simp add: checkStorageKeys_def storageSignal_def comp_def)

text \<open>
  Claim C8. For every profile and bundle, the storage-key evaluator emits nothing unless
  the bundle's \<open>localStorage\<close> flag is set; when it is set it emits one signal per key
  for the first ten declared storage keys (all of them when there are fewer); every
  emitted signal has \<open>found = false\<close> and severity medium. Hence no storage signal is
  ever counted as found, and the risk score is the clamped sum of the other three
  categories alone.
\<close>

theorem checkStorageKeys_never_found:
  "(\<not> storage_localStorage (fingerprintData this) \<longrightarrow> checkStorageKeys this p = [])
   \<and> (storage_localStorage (fingerprintData this) \<longrightarrow>
        map sig_name (checkStorageKeys this p) = take 10 (storageKeys p))
   \<and> length (checkStorageKeys this p) \<le> 10
   \<and> (\<forall>s \<in> set (checkStorageKeys this p).
        \<not> found s \<and> severity s = Medium \<and> sig_type s = StorageT)
   \<and> foundOfType StorageT (emittedSignals this p) = 0
   \<and> riskScore (detectProfile this p) =
        min 100 (10 * foundOfType DomainT (emittedSignals this p)
                 + 15 * foundOfType ScriptT (emittedSignals this p)
                 + 5 * foundOfType FingerprintT (emittedSignals this p))"
proof (intro conjI)
  show "\<not> storage_localStorage (fingerprintData this) \<longrightarrow> checkStorageKeys this p = []"
    by (simp add: checkStorageKeys_def)
  show "storage_localStorage (fingerprintData this) \<longrightarrow>
        map sig_name (checkStorageKeys this p) = take 10 (storageKeys p)"
    by (simp add: names_checkStorageKeys)
  show "length (checkStorageKeys this p) \<le> 10"
    by (rule length_checkStorageKeys)
  show "\<forall>s \<in> set (checkStorageKeys this p).
        \<not> found s \<and> severity s = Medium \<and> sig_type s = StorageT"
    using checkStorageKeys_props [of _ this p] by blast
  show "foundOfType StorageT (emittedSignals this p) = 0"
    by (simp only: foundOfType_emitted foundCount_storage)
  show "riskScore (detectProfile this p) =
        min 100 (10 * foundOfType DomainT (emittedSignals this p)
                 + 15 * foundOfType ScriptT (emittedSignals this p)
                 + 5 * foundOfType FingerprintT (emittedSignals this p))"
    by (simp add: riskScore_detectProfile foundOfType_emitted foundCount_storage)
qed

theorem checkStorageKeys_never_found_witness:
  "map sig_name (checkStorageKeys storageDetector AliExpressProfile) =
     [''cna'', ''isg'', ''xman_f'', ''xman_t'', ''xman_us_f'', ''xman_us_t'',
      ''ali_apache_id'', ''ali_apache_track'', ''ali_beacon_id'', ''x5sec'']
   \<and> list_all (\<lambda>s. \<not> found s \<and> severity s = Medium)
        (checkStorageKeys storageDetector AliExpressProfile)
   \<and> checkStorageKeys exampleDetector AliExpressProfile = []
   \<and> riskScore (detectProfile storageDetector AliExpressProfile) = 25"
proof -
  have f: "storage_localStorage (fingerprintData storageDetector)"
    "\<not> storage_localStorage (fingerprintData exampleDetector)"
    by (simp_all add: storageDetector_def storageBundle_def exampleDetector_def
        exampleBundle_def new_TargetDetector_def)
  have k: "take 10 (storageKeys AliExpressProfile) =
     [''cna'', ''isg'', ''xman_f'', ''xman_t'', ''xman_us_f'', ''xman_us_t'',
      ''ali_apache_id'', ''ali_apache_track'', ''ali_beacon_id'', ''x5sec'']"
    by (simp add: AliExpressProfile_def)
  have c: "foundOfType DomainT (emittedSignals storageDetector AliExpressProfile) = 0"
    "foundOfType ScriptT (emittedSignals storageDetector AliExpressProfile) = 0"
    "foundOfType FingerprintT (emittedSignals storageDetector AliExpressProfile) = 5"
    by code_simp+
  note t = checkStorageKeys_never_found [of storageDetector AliExpressProfile]
  have "\<forall>s \<in> set (checkStorageKeys storageDetector AliExpressProfile).
      \<not> found s \<and> severity s = Medium"
    using t by blast
  then have l: "list_all (\<lambda>s. \<not> found s \<and> severity s = Medium)
        (checkStorageKeys storageDetector AliExpressProfile)"
    by (simp only: list_all_iff)
  have "riskScore (detectProfile storageDetector AliExpressProfile) = 25"
    using t by (simp add: c)
  with l f k t checkStorageKeys_never_found [of exampleDetector AliExpressProfile]
  show ?thesis by simp
qed

subsection \<open>The confidence\<close>

lemma foundCount_append: "foundCount (xs @ ys) = foundCount xs + foundCount ys"
  by (simp add: foundCount_def)

lemma foundCount_Nil: "foundCount [] = 0"
  by (simp add: foundCount_def)

lemma foundCount_le_length: "foundCount xs \<le> int (length xs)"
  by (simp add: foundCount_def)

lemma foundCount_push_if:
  "foundCount (push_if c x xs) = foundCount xs + (if c \<and> found x then 1 else 0)"
  by (simp add: push_if_def foundCount_def)

lemma length_push_if: "length (push_if c x xs) = length xs + (if c then 1 else 0)"
  by (simp add: push_if_def)

lemma confidence_detectProfile:
  "confidence (detectProfile this p) =
     confidenceOf (foundCount (emittedSignals this p)) (int (length (emittedSignals this p)))"
  by (simp add: detectProfile_def Let_def emittedSignals_def del: length_append)

lemma confidence_bounds:
  "0 \<le> confidence (detectProfile this p) \<and> confidence (detectProfile this p) \<le> 100"
  unfolding confidence_detectProfile
  by (rule confidenceOf_bounds) (simp_all add: foundCount_nonneg foundCount_le_length)

lemma confidence_no_signals:
  assumes "emittedSignals this p = []"
  shows "confidence (detectProfile this p) = 0"
  unfolding confidence_detectProfile by (simp add: assms foundCount_Nil confidenceOf_zero)

lemma roundTiesToEven_error: "\<bar>of_int (roundTiesToEven y) - y\<bar> \<le> 1 / 2"
proof -
  have "of_int \<lfloor>y\<rfloor> \<le> y" "y < of_int \<lfloor>y\<rfloor> + 1" using floor_correct [of y] by simp_all
  then show ?thesis
    by (auto simp: roundTiesToEven_def Let_def abs_le_iff)
qed

lemma to_double_error:
  assumes "0 < x"
  shows "\<bar>to_double x - x\<bar> \<le> x / 2 ^ 53"
proof -
  define s :: rat where "s = 2 powi (52 - ilog2 x)"
  have s0: "0 < s" by (simp add: s_def)
  have "(2::rat) powi (ilog2 x) * s = 2 powi (ilog2 x + (52 - ilog2 x))"
    unfolding s_def by (rule power_int_add [symmetric]) simp
  then have "(2::rat) powi (ilog2 x) * s = 2 ^ 52" by simp
  moreover have "2 powi (ilog2 x) * s \<le> x * s"
    using ilog2_bounds(1) [OF assms] s0 by simp
  ultimately have xs: "2 ^ 52 \<le> x * s" by simp
  have d: "to_double x = of_int (roundTiesToEven (x * s)) / s"
    using assms by (simp add: to_double_def Let_def s_def)
  have "\<bar>to_double x - x\<bar> = \<bar>of_int (roundTiesToEven (x * s)) - x * s\<bar> / s"
    using s0 by (simp add: d field_simps abs_divide)
  also have "\<dots> \<le> (1 / 2) / s"
    using roundTiesToEven_error [of "x * s"] s0 by (intro divide_right_mono) simp_all
  also have "\<dots> \<le> x / 2 ^ 53"
    using xs s0 by (simp add: field_simps)
  finally show ?thesis .
qed

text \<open>
  Away from a tie the two roundings of the double computation are harmless: whenever
  \<open>100 * a / len\<close> is not exactly halfway between two integers, the code returns the
  exact percentage rounded to the nearest integer.
\<close>

lemma confidenceOf_off_tie:
  assumes a: "1 \<le> a" "a \<le> len" and len: "len \<le> 2 ^ 32"
    and tie: "\<not> 2 * len dvd 200 * a + len"
  shows "confidenceOf a len = Math_round (100 * of_int a / of_int len)"
proof -
  have l1: "1 \<le> len" using a by simp
  define x :: rat where "x = of_int a / of_int len"
  define d where "d = to_double x"
  define z where "z = to_double (d * 100)"
  define v :: rat where "v = 100 * of_int a / of_int len"
  have x0: "0 < x" using a l1 by (simp add: x_def)
  have x1: "x \<le> of_int 1" using a l1 by (simp add: x_def)
  have d0: "0 < d" unfolding d_def using x0 by (rule to_double_pos)
  have d1: "d \<le> 1" using to_double_le_int [OF x0 x1] by (simp add: d_def)
  have "\<bar>d - x\<bar> \<le> x / 2 ^ 53" unfolding d_def using x0 by (rule to_double_error)
  also have "\<dots> \<le> 1 / 2 ^ 53" using x1 by (intro divide_right_mono) simp_all
  finally have e1: "\<bar>d - x\<bar> \<le> 1 / 2 ^ 53" .
  have y0: "0 < d * 100" using d0 by simp
  have "\<bar>z - d * 100\<bar> \<le> d * 100 / 2 ^ 53" unfolding z_def using y0 by (rule to_double_error)
  also have "\<dots> \<le> 100 / 2 ^ 53" using d1 by (intro divide_right_mono) simp_all
  finally have e2: "\<bar>z - d * 100\<bar> \<le> 100 / 2 ^ 53" .
  have vx: "v = 100 * x" by (simp add: v_def x_def)
  have e: "\<bar>z - v\<bar> \<le> 200 / 2 ^ 53" using e1 e2 unfolding vx by linarith
  define n where "n = (200 * a + len) div (2 * len)"
  define r where "r = (200 * a + len) mod (2 * len)"
  have r0: "1 \<le> r" using tie l1 unfolding r_def
    by (smt (verit) dvd_eq_mod_eq_0 pos_mod_sign)
  have r1: "r \<le> 2 * len - 1" using l1 unfolding r_def
    by (smt (verit) pos_mod_bound)
  have nr: "200 * a + len = 2 * len * n + r" by (simp add: n_def r_def)
  have D0: "(0::rat) < of_int (2 * len)" using l1 by simp
  have "v + 1 / 2 = of_int (200 * a + len) / of_int (2 * len)"
    using l1 by (simp add: v_def field_simps)
  also have "\<dots> = of_int n + of_int r / of_int (2 * len)"
    using D0 by (simp only: nr) (simp add: field_simps)
  finally have vn: "v + 1 / 2 = of_int n + of_int r / of_int (2 * len)" .
  have "(of_int (2 * len) :: rat) \<le> of_int (2 ^ 33)" using len by (simp only: of_int_le_iff) simp
  then have g: "1 / 2 ^ 33 \<le> 1 / (of_int (2 * len) :: rat)"
    using D0 by (simp add: field_simps)
  have D0': "(0::rat) \<le> of_int (2 * len)" using D0 by simp
  have "(of_int 1 :: rat) \<le> of_int r" using r0 by (simp only: of_int_le_iff)
  then have "(of_int 1 :: rat) / of_int (2 * len) \<le> of_int r / of_int (2 * len)"
    using D0' by (rule divide_right_mono)
  then have lo: "1 / of_int (2 * len) \<le> of_int r / (of_int (2 * len) :: rat)" by simp
  have "(of_int r :: rat) \<le> of_int (2 * len - 1)" using r1 by (simp only: of_int_le_iff)
  then have "of_int r / (of_int (2 * len) :: rat) \<le> of_int (2 * len - 1) / of_int (2 * len)"
    using D0' by (rule divide_right_mono)
  also have "\<dots> = 1 - 1 / of_int (2 * len)" using D0 by (simp add: field_simps)
  finally have hi: "of_int r / (of_int (2 * len) :: rat) \<le> 1 - 1 / of_int (2 * len)" .
  have c: "(200::rat) / 2 ^ 53 < 1 / 2 ^ 33" by simp
  have z_lo: "of_int n \<le> z + 1 / 2" using e vn lo g c by linarith
  have z_hi: "z + 1 / 2 < of_int n + 1" using e vn hi g c by linarith
  have q: "(0::rat) < 1 / 2 ^ 33" by simp
  have v_lo: "of_int n \<le> v + 1 / 2" using vn lo g q by linarith
  have v_hi: "v + 1 / 2 < of_int n + 1" using vn hi g q by linarith
  have "confidenceOf a len = \<lfloor>z + 1 / 2\<rfloor>"
    using l1 by (simp add: confidenceOf_def Math_round_def fmul_def fdiv_def z_def d_def x_def)
  also have "\<dots> = n" using z_lo z_hi by (rule floor_unique)
  also have "n = \<lfloor>v + 1 / 2\<rfloor>" using v_lo v_hi by (rule floor_unique [symmetric])
  finally show ?thesis by (simp add: Math_round_def v_def)
qed

text \<open>
  Claim C5 states that the confidence is \<open>round(100 * found / total)\<close> over the emitted
  signal list. The code evaluates \<^verbatim>\<open>Math.round((activeSignals / totalSignals) * 100)\<close> in
  double precision, and at a tie the result can fall short. For the AliExpress profile, a
  bundle with canvas, WebGL, audio and local storage but no battery API, and a page that
  contacted all eighteen domain indicators, 23 of the 40 emitted signals are found. The
  exact percentage is 57.5, which rounds to 58, whether a tie goes up or to the even
  neighbour; the quotient \<open>23 / 40\<close> is rounded down to a double, its product with 100
  falls below 57.5, and the confidence returned is 57. The code does not round ties down
  either: 1 found of 8 is 12.5 exactly, also in double precision, and gives 13.
\<close>

theorem confidence_tie_rounds_down:
  "foundCount (emittedSignals tieDetector AliExpressProfile) = 23
   \<and> length (emittedSignals tieDetector AliExpressProfile) = 40
   \<and> confidence (detectProfile tieDetector AliExpressProfile) = 57
   \<and> Math_round (100 * of_int (foundCount (emittedSignals tieDetector AliExpressProfile))
         / of_int (int (length (emittedSignals tieDetector AliExpressProfile)))) = 58
   \<and> roundTiesToEven (100 * 23 / 40) = 58
   \<and> confidenceOf 1 8 = 13"
  by code_simp

subsection \<open>The aggregator\<close>

lemma set_insert_by: "set (insert_by cmp x ys) = insert x (set ys)"
  by (induction ys) auto

lemma set_array_sort: "set (array_sort cmp xs) = set xs"
  by (induction xs) (simp_all add: array_sort_def set_insert_by)

lemma sum_insert_by:
  "sum_list (map f (insert_by cmp x ys)) = (f x :: int) + sum_list (map f ys)"
  by (induction ys) (simp_all add: algebra_simps)

lemma sum_array_sort:
  "sum_list (map f (array_sort cmp xs)) = sum_list (map (f :: 'a \<Rightarrow> int) xs)"
  by (induction xs) (simp_all add: array_sort_def sum_insert_by)

lemma foldl_sum: "foldl (\<lambda>sum r. sum + f r) a xs = a + sum_list (map (f :: 'a \<Rightarrow> int) xs)"
  by (induction xs arbitrary: a) simp_all

lemma sorted_insert_by:
  assumes "sorted_wrt (\<lambda>a b. riskScore b \<le> riskScore a) ys"
  shows "sorted_wrt (\<lambda>a b. riskScore b \<le> riskScore a) (insert_by byRiskDesc x ys)"
  using assms
  by (induction ys) (auto simp: byRiskDesc_def set_insert_by)

lemma sorted_array_sort:
  "sorted_wrt (\<lambda>a b. riskScore b \<le> riskScore a) (array_sort byRiskDesc xs)"
  by (induction xs) (simp_all add: array_sort_def sorted_insert_by)

lemma filter_insert_by:
  "filter (\<lambda>r. riskScore r = k) (insert_by byRiskDesc x ys) =
     (if riskScore x = k then x # filter (\<lambda>r. riskScore r = k) ys
      else filter (\<lambda>r. riskScore r = k) ys)"
  by (induction ys) (auto simp: byRiskDesc_def)

lemma filter_array_sort:
  "filter (\<lambda>r. riskScore r = k) (array_sort byRiskDesc xs) = filter (\<lambda>r. riskScore r = k) xs"
  by (induction xs) (simp_all add: array_sort_def filter_insert_by)

lemma results_detectAll:
  "results (detectAll this) =
     array_sort byRiskDesc (filter surfaced (map (detectProfile this) ALL_TARGET_PROFILES))"
  by (simp add: detectAll_def Let_def)

lemma totalRiskScore_detectAll:
  "totalRiskScore (detectAll this) = min 100 (sum_list (map riskScore (results (detectAll this))))"
  by (simp add: detectAll_def Let_def foldl_sum)

lemma riskScore_raw: "riskScore (detectProfile this p) = min 100 (rawRiskScore this p)"
  by (simp add: rawRiskScore_def riskScore_detectProfile foundOfType_emitted)

lemma rawRiskScore_nonneg: "0 \<le> rawRiskScore this p"
  unfolding rawRiskScore_def foundOfType_emitted
  using foundCount_nonneg [of "checkDomains this p"] foundCount_nonneg [of "checkScripts this p"]
    foundCount_nonneg [of "checkFingerprintMethods this p"]
    foundCount_nonneg [of "checkStorageKeys this p"]
  by simp

lemma sum_list_nonneg_int: "(\<And>x. 0 \<le> f x) \<Longrightarrow> 0 \<le> sum_list (map f xs :: int list)"
  by (induction xs) simp_all

lemma min_sum_capped:
  assumes "\<And>x. 0 \<le> f x" "0 \<le> a"
  shows "min 100 (a + sum_list (map (\<lambda>x. min 100 (f x)) xs)) =
         min (100::int) (a + sum_list (map f xs))"
  using assms(2)
proof (induction xs arbitrary: a)
  case Nil
  then show ?case by simp
next
  case (Cons x xs)
  have s: "0 \<le> sum_list (map f xs)" using assms(1) by (rule sum_list_nonneg_int)
  have "min 100 (a + sum_list (map (\<lambda>x. min 100 (f x)) (x # xs))) =
        min 100 ((a + min 100 (f x)) + sum_list (map (\<lambda>x. min 100 (f x)) xs))"
    by (simp add: add.assoc)
  also have "\<dots> = min 100 ((a + min 100 (f x)) + sum_list (map f xs))"
    using Cons.prems assms(1) [of x] by (intro Cons.IH) simp
  also have "\<dots> = min 100 (a + sum_list (map f (x # xs)))"
    using Cons.prems assms(1) [of x] s by simp
  finally show ?case .
qed

lemma kept_as_map:
  "filter surfaced (map (detectProfile this) ps) =
     map (detectProfile this) (filter (\<lambda>p. surfaced (detectProfile this p)) ps)"
  by (simp add: filter_map comp_def)

text \<open>
  Claim C2. For every detector, the result of a catalog profile is in the \<open>results\<close> list
  of \<^verbatim>\<open>detectAll\<close> if and only if it has \<open>detected = true\<close> or a confidence above 20,
  and the list holds results of catalog profiles only. So a result that is not detected
  is left out at confidence 20 and kept at confidence 21.
\<close>

theorem detectAll_surfacing_rule:
  "(\<forall>p \<in> set ALL_TARGET_PROFILES.
       detectProfile this p \<in> set (results (detectAll this)) \<longleftrightarrow>
       detected (detectProfile this p) \<or> 20 < confidence (detectProfile this p))
   \<and> (\<forall>r \<in> set (results (detectAll this)). \<exists>p \<in> set ALL_TARGET_PROFILES. r = detectProfile this p)"
  unfolding results_detectAll set_array_sort by (auto simp: surfaced_def)

theorem detectAll_surfacing_rule_witness:
  "confidence (detectProfile youtubeDetector GoogleProfile) = 20
   \<and> \<not> detected (detectProfile youtubeDetector GoogleProfile)
   \<and> detectProfile youtubeDetector GoogleProfile \<notin> set (results (detectAll youtubeDetector))
   \<and> confidence (detectProfile offlineDetector FacebookProfile) = 21
   \<and> \<not> detected (detectProfile offlineDetector FacebookProfile)
   \<and> detectProfile offlineDetector FacebookProfile \<in> set (results (detectAll offlineDetector))"
proof -
  have m: "GoogleProfile \<in> set ALL_TARGET_PROFILES" "FacebookProfile \<in> set ALL_TARGET_PROFILES"
    by (simp_all add: ALL_TARGET_PROFILES_def)
  have g: "confidence (detectProfile youtubeDetector GoogleProfile) = 20"
    "\<not> detected (detectProfile youtubeDetector GoogleProfile)"
    by code_simp+
  have f: "confidence (detectProfile offlineDetector FacebookProfile) = 21"
    "\<not> detected (detectProfile offlineDetector FacebookProfile)"
    by code_simp+
  from detectAll_surfacing_rule [of youtubeDetector] m(1) g
  have 1: "detectProfile youtubeDetector GoogleProfile \<notin> set (results (detectAll youtubeDetector))"
    by simp
  from detectAll_surfacing_rule [of offlineDetector] m(2) f
  have 2: "detectProfile offlineDetector FacebookProfile \<in> set (results (detectAll offlineDetector))"
    by simp
  from g f 1 2 show ?thesis by simp
qed

text \<open>
  Claim C6. For every detector, \<open>totalRiskScore\<close> is the minimum of 100 and the sum of
  the risk scores of the surfaced results. The sum runs over the surfaced profiles, in any
  order, and it makes no difference that each summand was clamped to 100 in its own
  result: the total is also the minimum of 100 and the sum of the unclamped weighted sums.
\<close>

theorem detectAll_totalRiskScore:
  "totalRiskScore (detectAll this) = min 100 (sum_list (map riskScore (results (detectAll this))))
   \<and> totalRiskScore (detectAll this) =
       min 100 (sum_list (map riskScore
         (filter surfaced (map (detectProfile this) ALL_TARGET_PROFILES))))
   \<and> totalRiskScore (detectAll this) =
       min 100 (sum_list (map (rawRiskScore this)
         (filter (\<lambda>p. surfaced (detectProfile this p)) ALL_TARGET_PROFILES)))"
proof -
  have 1: "totalRiskScore (detectAll this) =
      min 100 (sum_list (map riskScore (results (detectAll this))))"
    by (rule totalRiskScore_detectAll)
  have 2: "sum_list (map riskScore (results (detectAll this))) =
      sum_list (map riskScore (filter surfaced (map (detectProfile this) ALL_TARGET_PROFILES)))"
    by (simp add: results_detectAll sum_array_sort)
  have "min 100 (sum_list (map riskScore
         (filter surfaced (map (detectProfile this) ALL_TARGET_PROFILES)))) =
      min 100 (0 + sum_list (map (\<lambda>p. min 100 (rawRiskScore this p))
         (filter (\<lambda>p. surfaced (detectProfile this p)) ALL_TARGET_PROFILES)))"
    by (simp add: kept_as_map comp_def riskScore_raw)
  also have "\<dots> = min 100 (0 + sum_list (map (rawRiskScore this)
         (filter (\<lambda>p. surfaced (detectProfile this p)) ALL_TARGET_PROFILES)))"
    by (rule min_sum_capped) (simp_all add: rawRiskScore_nonneg)
  finally have 3: "min 100 (sum_list (map riskScore
         (filter surfaced (map (detectProfile this) ALL_TARGET_PROFILES)))) =
      min 100 (sum_list (map (rawRiskScore this)
         (filter (\<lambda>p. surfaced (detectProfile this p)) ALL_TARGET_PROFILES)))"
    by simp
  from 1 2 3 show ?thesis by simp
qed

theorem detectAll_totalRiskScore_witness:
  "map riskScore (results (detectAll fullDetector)) = [30, 30, 25, 25, 20]
   \<and> totalRiskScore (detectAll fullDetector) = 100"
proof -
  have r: "map riskScore (results (detectAll fullDetector)) = [30, 30, 25, 25, 20]"
    by code_simp
  from detectAll_totalRiskScore [of fullDetector] r show ?thesis by simp
qed

text \<open>
  Claim C7. For every detector, the \<open>results\<close> list is non-increasing in the risk score,
  and for every score the results with that score appear in the order in which their
  profiles are registered in the catalog.
\<close>

theorem detectAll_results_sorted_stable:
  "sorted_wrt (\<lambda>a b. riskScore b \<le> riskScore a) (results (detectAll this))
   \<and> (\<forall>k. filter (\<lambda>r. riskScore r = k) (results (detectAll this)) =
            filter (\<lambda>r. riskScore r = k)
              (filter surfaced (map (detectProfile this) ALL_TARGET_PROFILES)))"
  unfolding results_detectAll by (simp add: sorted_array_sort filter_array_sort)

theorem detectAll_results_sorted_stable_witness:
  "map (\<lambda>r. profile_id (profile r)) (results (detectAll fullDetector)) =
     [''aliexpress'', ''tiktok'', ''facebook'', ''google'', ''amazon'']
   \<and> map riskScore (results (detectAll fullDetector)) = [30, 30, 25, 25, 20]
   \<and> sorted_wrt (\<lambda>a b. riskScore b \<le> riskScore a) (results (detectAll fullDetector))
   \<and> map (\<lambda>r. profile_id (profile r))
        (filter (\<lambda>r. riskScore r = 25) (results (detectAll fullDetector))) =
       [''facebook'', ''google'']"
proof -
  have r: "map (\<lambda>r. profile_id (profile r)) (results (detectAll fullDetector)) =
     [''aliexpress'', ''tiktok'', ''facebook'', ''google'', ''amazon'']"
    "map riskScore (results (detectAll fullDetector)) = [30, 30, 25, 25, 20]"
    by code_simp+
  have k: "map (\<lambda>r. profile_id (profile r))
        (filter (\<lambda>r. riskScore r = 25)
           (filter surfaced (map (detectProfile fullDetector) ALL_TARGET_PROFILES))) =
       [''facebook'', ''google'']"
    by code_simp
  note t = detectAll_results_sorted_stable [of fullDetector]
  from t have s: "sorted_wrt (\<lambda>a b. riskScore b \<le> riskScore a) (results (detectAll fullDetector))"
    by blast
  from t have "filter (\<lambda>r. riskScore r = 25) (results (detectAll fullDetector)) =
      filter (\<lambda>r. riskScore r = 25)
        (filter surfaced (map (detectProfile fullDetector) ALL_TARGET_PROFILES))"
    by blast
  with k have "map (\<lambda>r. profile_id (profile r))
        (filter (\<lambda>r. riskScore r = 25) (results (detectAll fullDetector))) =
       [''facebook'', ''google'']"
    by simp
  with r s show ?thesis by simp
qed

subsection \<open>The single-profile lookup\<close>

lemma catalog_ids:
  "profile_id AliExpressProfile = ''aliexpress''"
  "profile_id AmazonProfile = ''amazon''"
  "profile_id FacebookProfile = ''facebook''"
  "profile_id GoogleProfile = ''google''"
  "profile_id TikTokProfile = ''tiktok''"
  by (simp_all add: AliExpressProfile_def AmazonProfile_def FacebookProfile_def
      GoogleProfile_def TikTokProfile_def)

lemma quickDetect_unknown:
  "profileId \<notin> set (map profile_id ALL_TARGET_PROFILES) \<Longrightarrow> quickDetect fd profileId = None"
  by (auto simp: quickDetect_def find_None_iff split: option.splits)

lemma quickDetect_known:
  assumes "p \<in> set ALL_TARGET_PROFILES" "profile_id p = profileId"
  shows "quickDetect fd profileId = Some (detectProfile (new_TargetDetector fd None) p)"
proof -
  from assms(1) consider "p = AliExpressProfile" | "p = AmazonProfile" | "p = FacebookProfile"
    | "p = GoogleProfile" | "p = TikTokProfile"
    unfolding ALL_TARGET_PROFILES_def by fastforce
  then show ?thesis
  proof cases
    case 1
    with assms(2) have "profileId = profile_id p" by simp
    with 1 show ?thesis
      by (simp add: quickDetect_def ALL_TARGET_PROFILES_def catalog_ids)
  next
    case 2
    with assms(2) have "profileId = profile_id p" by simp
    with 2 show ?thesis
      by (simp add: quickDetect_def ALL_TARGET_PROFILES_def catalog_ids)
  next
    case 3
    with assms(2) have "profileId = profile_id p" by simp
    with 3 show ?thesis
      by (simp add: quickDetect_def ALL_TARGET_PROFILES_def catalog_ids)
  next
    case 4
    with assms(2) have "profileId = profile_id p" by simp
    with 4 show ?thesis
      by (simp add: quickDetect_def ALL_TARGET_PROFILES_def catalog_ids)
  next
    case 5
    with assms(2) have "profileId = profile_id p" by simp
    with 5 show ?thesis
      by (simp add: quickDetect_def ALL_TARGET_PROFILES_def catalog_ids)
  qed
qed

lemma no_context_not_seen:
  "\<not> domainSeen (new_TargetDetector fd None) x" "\<not> scriptSeen (new_TargetDetector fd None) x"
  by (simp_all add: domainSeen_def scriptSeen_def new_TargetDetector_def)

lemma no_context_domains:
  "s \<in> set (checkDomains (new_TargetDetector fd None) p) \<Longrightarrow> \<not> found s"
  by (auto simp: checkDomains_def primarySignal_def trackerSignal_def no_context_not_seen)

lemma no_context_scripts:
  "s \<in> set (checkScripts (new_TargetDetector fd None) p) \<Longrightarrow> \<not> found s"
  by (auto simp: checkScripts_def scriptSignal_def no_context_not_seen)

lemma signals_detectProfile:
  "signals (detectProfile this p) = filter found (emittedSignals this p)"
  by (simp add: detectProfile_def Let_def emittedSignals_def)

lemma no_context_signals:
  assumes "s \<in> set (signals (detectProfile (new_TargetDetector fd None) p))"
  shows "sig_type s = FingerprintT"
proof -
  from assms have f: "found s" and m: "s \<in> set (emittedSignals (new_TargetDetector fd None) p)"
    by (simp_all add: signals_detectProfile)
  from m f show ?thesis
    unfolding emittedSignals_def
    using no_context_domains no_context_scripts checkFingerprintMethods_found
      checkStorageKeys_props
    by (metis Un_iff set_append)
qed

text \<open>
  Claim C9. For every bundle and profile id, \<^verbatim>\<open>quickDetect\<close> returns the not-found value
  when no catalog entry has the id, and never fails; for the id of a catalog entry it
  returns the result of \<^verbatim>\<open>detectProfile\<close> for that entry on a detector without page
  context. In such a run every domain signal and every script signal has
  \<open>found = false\<close>, so the returned signal list holds neither kind.
\<close>

theorem quickDetect_lookup:
  "(profileId \<notin> set (map profile_id ALL_TARGET_PROFILES) \<longrightarrow> quickDetect fd profileId = None)
   \<and> (\<forall>p \<in> set ALL_TARGET_PROFILES. profile_id p = profileId \<longrightarrow>
        quickDetect fd profileId = Some (detectProfile (new_TargetDetector fd None) p))
   \<and> (\<forall>s \<in> set (checkDomains (new_TargetDetector fd None) p). \<not> found s)
   \<and> (\<forall>s \<in> set (checkScripts (new_TargetDetector fd None) p). \<not> found s)
   \<and> (\<forall>s \<in> set (signals (detectProfile (new_TargetDetector fd None) p)).
        sig_type s \<noteq> DomainT \<and> sig_type s \<noteq> ScriptT)"
proof (intro conjI)
  show "profileId \<notin> set (map profile_id ALL_TARGET_PROFILES) \<longrightarrow> quickDetect fd profileId = None"
    using quickDetect_unknown by blast
  show "\<forall>p \<in> set ALL_TARGET_PROFILES. profile_id p = profileId \<longrightarrow>
        quickDetect fd profileId = Some (detectProfile (new_TargetDetector fd None) p)"
    using quickDetect_known by blast
  show "\<forall>s \<in> set (checkDomains (new_TargetDetector fd None) p). \<not> found s"
    using no_context_domains by blast
  show "\<forall>s \<in> set (checkScripts (new_TargetDetector fd None) p). \<not> found s"
    using no_context_scripts by blast
  show "\<forall>s \<in> set (signals (detectProfile (new_TargetDetector fd None) p)).
        sig_type s \<noteq> DomainT \<and> sig_type s \<noteq> ScriptT"
    using no_context_signals [of _ fd p] by auto
qed

theorem quickDetect_lookup_witness:
  "quickDetect exampleBundle ''netflix'' = None
   \<and> quickDetect exampleBundle ''google'' =
       Some (detectProfile (new_TargetDetector exampleBundle None) GoogleProfile)
   \<and> list_all (\<lambda>s. \<not> found s) (checkDomains (new_TargetDetector exampleBundle None) GoogleProfile)
   \<and> list_all (\<lambda>s. \<not> found s) (checkScripts (new_TargetDetector exampleBundle None) GoogleProfile)
   \<and> map sig_type (signals (detectProfile (new_TargetDetector exampleBundle None) GoogleProfile))
       = [FingerprintT, FingerprintT, FingerprintT, FingerprintT]"
proof -
  note t = quickDetect_lookup [of "''netflix''" exampleBundle GoogleProfile]
  note u = quickDetect_lookup [of "''google''" exampleBundle GoogleProfile]
  have a: "''netflix'' \<notin> set (map profile_id ALL_TARGET_PROFILES)"
    by (simp add: ALL_TARGET_PROFILES_def catalog_ids)
  have b: "GoogleProfile \<in> set ALL_TARGET_PROFILES" "profile_id GoogleProfile = ''google''"
    by (simp_all add: ALL_TARGET_PROFILES_def catalog_ids)
  have c: "map sig_type (signals (detectProfile (new_TargetDetector exampleBundle None) GoogleProfile))
       = [FingerprintT, FingerprintT, FingerprintT, FingerprintT]"
    by code_simp
  from t a have 1: "quickDetect exampleBundle ''netflix'' = None" by blast
  from u b have 2: "quickDetect exampleBundle ''google'' =
       Some (detectProfile (new_TargetDetector exampleBundle None) GoogleProfile)" by blast
  from u have 3: "list_all (\<lambda>s. \<not> found s)
      (checkDomains (new_TargetDetector exampleBundle None) GoogleProfile)"
    "list_all (\<lambda>s. \<not> found s)
      (checkScripts (new_TargetDetector exampleBundle None) GoogleProfile)"
    unfolding list_all_iff by blast+
  from 1 2 3 c show ?thesis by simp
qed

subsection \<open>Every catalog profile shows evidence\<close>

lemma foundCount_fonts_behavioral:
  assumes "fonts (fingerprintMethods p)" "behavioral (fingerprintMethods p)"
  shows "2 \<le> foundCount (checkFingerprintMethods this p)"
  using assms
  by (simp add: checkFingerprintMethods_def Let_def foundCount_push_if found_fpSignal
      foundCount_Nil)

lemma length_checkFingerprintMethods: "length (checkFingerprintMethods this p) \<le> 6"
  by (simp add: checkFingerprintMethods_def Let_def length_push_if)

lemma length_emittedSignals:
  "int (length (emittedSignals this p)) \<le>
     int (length (primaryDomains (trackingInfra p)) + length (thirdPartyTrackers (trackingInfra p))
          + length (jsLibraries (trackingInfra p))) + 16"
  using length_checkFingerprintMethods [of this p] length_checkStorageKeys [of this p]
  by (simp add: emittedSignals_def checkDomains_def checkScripts_def)

lemma foundCount_emitted_ge:
  "foundCount (checkFingerprintMethods this p) \<le> foundCount (emittedSignals this p)"
  using foundCount_nonneg [of "checkDomains this p"] foundCount_nonneg [of "checkScripts this p"]
    foundCount_nonneg [of "checkStorageKeys this p"]
  by (simp add: emittedSignals_def foundCount_append)

lemma fonts_behavioral_evidence:
  assumes "fonts (fingerprintMethods p)" "behavioral (fingerprintMethods p)"
    and "length (primaryDomains (trackingInfra p)) + length (thirdPartyTrackers (trackingInfra p))
          + length (jsLibraries (trackingInfra p)) \<le> 100"
  shows "10 \<le> riskScore (detectProfile this p) \<and> 0 < confidence (detectProfile this p)"
proof -
  have f2: "2 \<le> foundCount (checkFingerprintMethods this p)"
    using assms(1,2) by (rule foundCount_fonts_behavioral)
  have "10 \<le> riskScore (detectProfile this p)"
    unfolding riskScore_detectProfile
    using f2 foundCount_nonneg [of "checkDomains this p"]
      foundCount_nonneg [of "checkScripts this p"]
      foundCount_nonneg [of "checkStorageKeys this p"]
    by simp
  moreover have "1 \<le> confidence (detectProfile this p)"
    unfolding confidence_detectProfile
  proof (rule confidenceOf_pos)
    show "1 \<le> foundCount (emittedSignals this p)"
      using f2 foundCount_emitted_ge [of this p] by simp
    show "foundCount (emittedSignals this p) \<le> int (length (emittedSignals this p))"
      by (rule foundCount_le_length)
    show "int (length (emittedSignals this p)) \<le> 64 * foundCount (emittedSignals this p)"
      using f2 foundCount_emitted_ge [of this p] length_emittedSignals [of this p] assms(3)
      by simp
  qed
  ultimately show ?thesis by simp
qed

lemma catalog_profile_shape:
  assumes "p \<in> set ALL_TARGET_PROFILES"
  shows "fonts (fingerprintMethods p) \<and> behavioral (fingerprintMethods p)
    \<and> length (primaryDomains (trackingInfra p)) + length (thirdPartyTrackers (trackingInfra p))
          + length (jsLibraries (trackingInfra p)) \<le> 100"
proof -
  from assms consider "p = AliExpressProfile" | "p = AmazonProfile" | "p = FacebookProfile"
    | "p = GoogleProfile" | "p = TikTokProfile"
    unfolding ALL_TARGET_PROFILES_def by fastforce
  then show ?thesis
  proof cases
    case 1 then show ?thesis by (simp add: AliExpressProfile_def)
  next
    case 2 then show ?thesis by (simp add: AmazonProfile_def)
  next
    case 3 then show ?thesis by (simp add: FacebookProfile_def)
  next
    case 4 then show ?thesis by (simp add: GoogleProfile_def)
  next
    case 5 then show ?thesis by (simp add: TikTokProfile_def)
  qed
qed

text \<open>
  Claim C10. For every detector, with or without a page context, and every profile of
  the catalog, at least two fingerprint signals are found, among them the font and the
  behavioural signal, which every catalog profile declares and which no bundle flag gates;
  so the risk score is at least 10 and the confidence is above 0.
\<close>

theorem catalog_profile_always_has_evidence:
  "\<forall>p \<in> set ALL_TARGET_PROFILES.
     fonts (fingerprintMethods p) \<and> behavioral (fingerprintMethods p)
     \<and> 2 \<le> foundOfType FingerprintT (emittedSignals this p)
     \<and> (\<exists>s \<in> set (signals (detectProfile this p)). sig_name s = ''Font Enumeration'')
     \<and> (\<exists>s \<in> set (signals (detectProfile this p)). sig_name s = ''Behavioral Tracking'')
     \<and> 10 \<le> riskScore (detectProfile this p)
     \<and> 0 < confidence (detectProfile this p)"
proof
  fix p assume p: "p \<in> set ALL_TARGET_PROFILES"
  note sh = catalog_profile_shape [OF p]
  from sh have fb: "fonts (fingerprintMethods p)" "behavioral (fingerprintMethods p)" by simp_all
  have 1: "2 \<le> foundOfType FingerprintT (emittedSignals this p)"
    using foundCount_fonts_behavioral [OF fb] by (simp add: foundOfType_emitted)
  obtain s1 where s1: "s1 \<in> set (checkFingerprintMethods this p)" "sig_name s1 = ''Font Enumeration''"
    using fb(1) name_in_checkFingerprintMethods [of this p "''Font Enumeration''"] by auto
  obtain s2 where s2: "s2 \<in> set (checkFingerprintMethods this p)" "sig_name s2 = ''Behavioral Tracking''"
    using fb(2) name_in_checkFingerprintMethods [of this p "''Behavioral Tracking''"] by auto
  have in_sig: "s \<in> set (signals (detectProfile this p))"
    if "s \<in> set (checkFingerprintMethods this p)" for s
    using that checkFingerprintMethods_found [OF that]
    by (simp add: signals_detectProfile emittedSignals_def)
  have 2: "\<exists>s \<in> set (signals (detectProfile this p)). sig_name s = ''Font Enumeration''"
    using in_sig [OF s1(1)] s1(2) by blast
  have 3: "\<exists>s \<in> set (signals (detectProfile this p)). sig_name s = ''Behavioral Tracking''"
    using in_sig [OF s2(1)] s2(2) by blast
  from sh have "10 \<le> riskScore (detectProfile this p) \<and> 0 < confidence (detectProfile this p)"
    by (intro fonts_behavioral_evidence) simp_all
  with fb 1 2 3
  show "fonts (fingerprintMethods p) \<and> behavioral (fingerprintMethods p)
     \<and> 2 \<le> foundOfType FingerprintT (emittedSignals this p)
     \<and> (\<exists>s \<in> set (signals (detectProfile this p)). sig_name s = ''Font Enumeration'')
     \<and> (\<exists>s \<in> set (signals (detectProfile this p)). sig_name s = ''Behavioral Tracking'')
     \<and> 10 \<le> riskScore (detectProfile this p)
     \<and> 0 < confidence (detectProfile this p)"
    by simp
qed

theorem catalog_profile_always_has_evidence_witness:
  "foundOfType FingerprintT (emittedSignals (new_TargetDetector noSupportBundle None) AmazonProfile) = 2
   \<and> riskScore (detectProfile (new_TargetDetector noSupportBundle None) AmazonProfile) = 10
   \<and> 0 < confidence (detectProfile (new_TargetDetector noSupportBundle None) AmazonProfile)
   \<and> 10 \<le> riskScore (detectProfile tieDetector TikTokProfile)
   \<and> 0 < confidence (detectProfile tieDetector TikTokProfile)"
proof -
  have m: "AmazonProfile \<in> set ALL_TARGET_PROFILES" "TikTokProfile \<in> set ALL_TARGET_PROFILES"
    by (simp_all add: ALL_TARGET_PROFILES_def)
  have e: "foundOfType FingerprintT
      (emittedSignals (new_TargetDetector noSupportBundle None) AmazonProfile) = 2"
    "riskScore (detectProfile (new_TargetDetector noSupportBundle None) AmazonProfile) = 10"
    by code_simp+
  from catalog_profile_always_has_evidence [of "new_TargetDetector noSupportBundle None"] m(1)
  have 1: "0 < confidence (detectProfile (new_TargetDetector noSupportBundle None) AmazonProfile)"
    by blast
  from catalog_profile_always_has_evidence [of tieDetector] m(2)
  have 2: "10 \<le> riskScore (detectProfile tieDetector TikTokProfile)
     \<and> 0 < confidence (detectProfile tieDetector TikTokProfile)"
    by blast
  from e 1 2 show ?thesis by simp
qed

subsection \<open>The recommendations\<close>

lemma recommendations_detectProfile:
  "recommendations (detectProfile this p) = generateRecommendations p (emittedSignals this p)"
  by (simp add: detectProfile_def Let_def emittedSignals_def)

lemma critical_found_filter:
  "filter (\<lambda>s. severity s = Critical \<and> found s) sigs =
     filter (\<lambda>s. severity s = Critical) (filter found sigs)"
  by (simp add: conj_commute)

lemma length_filter_pos: "0 < length (filter P xs) \<longleftrightarrow> list_ex P xs"
  by (simp add: list_ex_iff filter_empty_conv)

lemma generateRecommendations_order:
  "generateRecommendations p sigs =
     take 5
      ((if useContainer (countermeasures p) then [UseContainerFor (profile_name p)] else [])
       @ (if blockDomains (countermeasures p)
          then [BlockDomainsOf (take 3 (primaryDomains (trackingInfra p)))] else [])
       @ (if clearCookies (countermeasures p) then [ClearCookiesOf (profile_name p)] else [])
       @ (if spoofFingerprint (countermeasures p)
          then [SpoofFingerprintAgainst (profile_name p)] else [])
       @ (if list_ex (\<lambda>s. severity s = Critical) (filter found sigs)
          then [CriticalTrackersFound
                  (map sig_name (filter (\<lambda>s. severity s = Critical) (filter found sigs)))]
          else [])
       @ specificRecommendations (profile_id p))"
  unfolding generateRecommendations_def Let_def critical_found_filter length_filter_pos
  by (simp add: push_if_def)

text \<open>
  Claim C3, as the code has it. For every detector and profile, the recommendations are
  the first five entries, in generation order, of: the container, domain-block,
  cookie-clear and fingerprint-spoof advisories of the countermeasure flags that are set,
  in that order; then the critical-tracker summary if some found signal has severity
  critical; then the two fixed strings of the profile id, which exist for the ids
  \<open>aliexpress\<close>, \<open>facebook\<close>, \<open>google\<close> and \<open>tiktok\<close>. The \<open>amazon\<close> profile, like any
  other id, has no fixed string.
\<close>

theorem detectProfile_recommendations_order:
  "recommendations (detectProfile this p) =
     take 5
      ((if useContainer (countermeasures p) then [UseContainerFor (profile_name p)] else [])
       @ (if blockDomains (countermeasures p)
          then [BlockDomainsOf (take 3 (primaryDomains (trackingInfra p)))] else [])
       @ (if clearCookies (countermeasures p) then [ClearCookiesOf (profile_name p)] else [])
       @ (if spoofFingerprint (countermeasures p)
          then [SpoofFingerprintAgainst (profile_name p)] else [])
       @ (if list_ex (\<lambda>s. severity s = Critical) (signals (detectProfile this p))
          then [CriticalTrackersFound
                  (map sig_name
                     (filter (\<lambda>s. severity s = Critical) (signals (detectProfile this p))))]
          else [])
       @ (if profile_id p = ''aliexpress'' then [AliExpressUseVPN, DisableWebRTC]
          else if profile_id p = ''facebook''
            then [InstallFacebookContainer, UseUBlockFacebookFilters]
          else if profile_id p = ''google'' then [GoogleDisableTracking, UseSearchAlternatives]
          else if profile_id p = ''tiktok''
            then [TikTokRestrictPermissions, TikTokDenyClipboardSensors]
          else []))"
  unfolding recommendations_detectProfile signals_detectProfile generateRecommendations_order
    specificRecommendations_def ..

theorem detectProfile_recommendations_order_witness:
  "recommendations (detectProfile exampleDetector AliExpressProfile) =
     [UseContainerFor ''AliExpress (EU/Global)'',
      BlockDomainsOf [''g.alicdn.com'', ''log.mmstat.com'', ''atanx.alicdn.com''],
      ClearCookiesOf ''AliExpress (EU/Global)'',
      SpoofFingerprintAgainst ''AliExpress (EU/Global)'',
      AliExpressUseVPN]
   \<and> recommendations (detectProfile offlineDetector AmazonProfile) =
       [BlockDomainsOf [''amazon.com'', ''amazon-adsystem.com'', ''amazonaws.com''],
        ClearCookiesOf ''Amazon'']"
proof -
  have c: "\<not> list_ex (\<lambda>s. severity s = Critical)
      (signals (detectProfile exampleDetector AliExpressProfile))"
    "\<not> list_ex (\<lambda>s. severity s = Critical)
      (signals (detectProfile offlineDetector AmazonProfile))"
    by code_simp+
  have 1: "recommendations (detectProfile exampleDetector AliExpressProfile) =
     [UseContainerFor ''AliExpress (EU/Global)'',
      BlockDomainsOf [''g.alicdn.com'', ''log.mmstat.com'', ''atanx.alicdn.com''],
      ClearCookiesOf ''AliExpress (EU/Global)'',
      SpoofFingerprintAgainst ''AliExpress (EU/Global)'',
      AliExpressUseVPN]"
    using detectProfile_recommendations_order [of exampleDetector AliExpressProfile] c(1)
    by (simp add: AliExpressProfile_def)
  have 2: "recommendations (detectProfile offlineDetector AmazonProfile) =
       [BlockDomainsOf [''amazon.com'', ''amazon-adsystem.com'', ''amazonaws.com''],
        ClearCookiesOf ''Amazon'']"
    using detectProfile_recommendations_order [of offlineDetector AmazonProfile] c(2)
    by (simp add: AmazonProfile_def)
  from 1 2 show ?thesis by simp
qed

text \<open>
  The catalog profile \<open>amazon\<close> has no case in the \<^verbatim>\<open>switch\<close>: without a page context
  its recommendations are the two advisories of its countermeasure flags and nothing else.
\<close>

theorem amazon_no_specific_recommendations:
  "AmazonProfile \<in> set ALL_TARGET_PROFILES
   \<and> profile_id AmazonProfile = ''amazon''
   \<and> specificRecommendations ''amazon'' = []
   \<and> recommendations (detectProfile offlineDetector AmazonProfile) =
       [BlockDomainsOf [''amazon.com'', ''amazon-adsystem.com'', ''amazonaws.com''],
        ClearCookiesOf ''Amazon'']"
  by code_simp

end
